theory Spec2Isabelle
  imports Complex_Main "HOL-Library.Sublist"
begin

section \<open>Python values\<close>

text \<open>
  The profile slots of \<^verbatim>\<open>CandidateInfo\<close> are annotated \<^verbatim>\<open>Optional[str]\<close>, but Python does
  not enforce the annotation: \<^verbatim>\<open>extract_candidate_info\<close> stores whatever value the parsed
  JSON of the language model holds under the key. The values that can occur are those of
  \<^verbatim>\<open>json.loads\<close>: \<^verbatim>\<open>None\<close>, booleans, integers, floats, strings, lists and dictionaries.
  A float is kept as the rational it denotes, or as one of the three special values
  \<^verbatim>\<open>json.loads\<close> accepts (\<^verbatim>\<open>Infinity\<close>, \<^verbatim>\<open>-Infinity\<close>, \<^verbatim>\<open>NaN\<close>).

  A \<^typ>\<open>string\<close> is a Python \<^verbatim>\<open>str\<close> whose code points lie in U+0000..U+00FF; the
  \<^typ>\<open>char\<close> with code \<open>n\<close> stands for the code point \<open>n\<close>.
\<close>

datatype pyfloat = Finite rat | PosInf | NegInf | NaN

datatype pyval =
    PNone
  | PBool bool
  | PInt int
  | PFloat pyfloat
  | PStr string
  | PList "pyval list"
  | PDict "(string \<times> pyval) list"

text \<open>Truth value testing (\<^verbatim>\<open>if x:\<close>, \<^verbatim>\<open>not x\<close>, \<^verbatim>\<open>all([...])\<close>).\<close>

fun truthy :: "pyval \<Rightarrow> bool" where
  "truthy PNone = False"
| "truthy (PBool b) = b"
| "truthy (PInt n) = (n \<noteq> 0)"
| "truthy (PFloat f) = (f \<noteq> Finite 0)"
| "truthy (PStr s) = (s \<noteq> [])"
| "truthy (PList xs) = (xs \<noteq> [])"
| "truthy (PDict kvs) = (kvs \<noteq> [])"

text \<open>The exceptions that the modelled code can raise.\<close>

datatype py_error =
  AttributeError | ValueError | TypeError | OverflowError | IndexError | KeyError

section \<open>Strings\<close>

definition code :: "char \<Rightarrow> nat" where
  "code c = of_char c"

text \<open>
  \<^verbatim>\<open>str.isspace\<close>, which is also the class \<^verbatim>\<open>\s\<close> of \<^verbatim>\<open>re\<close> on \<^verbatim>\<open>str\<close> patterns and the
  separator of \<^verbatim>\<open>str.split()\<close> and \<^verbatim>\<open>str.strip()\<close>.
\<close>

definition isspace :: "char \<Rightarrow> bool" where
  "isspace c =
     ((9 \<le> code c \<and> code c \<le> 13) \<or> (28 \<le> code c \<and> code c \<le> 32) \<or>
      code c = 133 \<or> code c = 160)"

text \<open>The class \<^verbatim>\<open>\d\<close> (and \<^verbatim>\<open>[0-9]\<close>): the only decimal digits below U+0100.\<close>

definition isdecimal :: "char \<Rightarrow> bool" where
  "isdecimal c = (48 \<le> code c \<and> code c \<le> 57)"

definition ascii_upper :: "char \<Rightarrow> bool" where
  "ascii_upper c = (65 \<le> code c \<and> code c \<le> 90)"

definition ascii_lower :: "char \<Rightarrow> bool" where
  "ascii_lower c = (97 \<le> code c \<and> code c \<le> 122)"

text \<open>The class \<^verbatim>\<open>\w\<close>: \<^verbatim>\<open>str.isalnum\<close> or the underscore.\<close>

definition word_char :: "char \<Rightarrow> bool" where
  "word_char c =
     (ascii_upper c \<or> ascii_lower c \<or> isdecimal c \<or> code c = 95 \<or>
      code c = 170 \<or> code c = 178 \<or> code c = 179 \<or> code c = 181 \<or>
      code c = 185 \<or> code c = 186 \<or> (188 \<le> code c \<and> code c \<le> 190) \<or>
      (192 \<le> code c \<and> code c \<le> 214) \<or> (216 \<le> code c \<and> code c \<le> 246) \<or>
      248 \<le> code c)"

definition lower_char :: "char \<Rightarrow> char" where
  "lower_char c =
     (if ascii_upper c \<or> (192 \<le> code c \<and> code c \<le> 214) \<or>
         (216 \<le> code c \<and> code c \<le> 222)
      then char_of (code c + 32) else c)"

definition lower :: "string \<Rightarrow> string" where
  "lower s = map lower_char s"

definition strip_with :: "(char \<Rightarrow> bool) \<Rightarrow> string \<Rightarrow> string" where
  "strip_with p s = rev (dropWhile p (rev (dropWhile p s)))"

definition strip :: "string \<Rightarrow> string" where
  "strip s = strip_with isspace s"

text \<open>\<^verbatim>\<open>str.split()\<close> with no argument: the maximal runs of non-space characters.\<close>

fun split_aux :: "string \<Rightarrow> string \<Rightarrow> string list" where
  "split_aux cur [] = (if cur = [] then [] else [cur])"
| "split_aux cur (c # cs) =
     (if isspace c then (if cur = [] then split_aux [] cs else cur # split_aux [] cs)
      else split_aux (cur @ [c]) cs)"

definition split :: "string \<Rightarrow> string list" where
  "split s = split_aux [] s"

text \<open>\<^verbatim>\<open>k in s\<close> on strings: \<open>k\<close> occurs in \<open>s\<close> as a contiguous substring.\<close>

fun py_in :: "string \<Rightarrow> string \<Rightarrow> bool" where
  "py_in k [] = (k = [])"
| "py_in k (c # cs) = (prefix k (c # cs) \<or> py_in k cs)"

subsection \<open>\<^verbatim>\<open>int(...)\<close>\<close>

text \<open>
  \<^verbatim>\<open>int\<close> of a string strips the white space \<^verbatim>\<open>int\<close> recognises (the separators U+001C
  to U+001F are not part of it), reads an optional sign, and then decimal digits in
  which single underscores may stand between two digits. A string with more than
  \<open>max_str_digits\<close> digit characters is refused with \<^verbatim>\<open>ValueError\<close>, as the interpreter does
  by default; leading zeros count, underscores, sign and white space do not.
\<close>

definition max_str_digits :: nat where
  "max_str_digits = 4300"

definition int_space :: "char \<Rightarrow> bool" where
  "int_space c =
     ((9 \<le> code c \<and> code c \<le> 13) \<or> code c = 32 \<or> code c = 133 \<or> code c = 160)"

fun parse_digits :: "bool \<Rightarrow> int \<Rightarrow> string \<Rightarrow> int option" where
  "parse_digits after_digit acc [] = (if after_digit then Some acc else None)"
| "parse_digits after_digit acc (c # cs) =
     (if isdecimal c then parse_digits True (10 * acc + (int (code c) - 48)) cs
      else if c = CHR ''_'' \<and> after_digit then parse_digits False acc cs
      else None)"

definition int_of_str :: "string \<Rightarrow> int option" where
  "int_of_str s =
     (if length (filter isdecimal s) > max_str_digits then None
      else (case strip_with int_space s of
              [] \<Rightarrow> None
            | c # cs \<Rightarrow>
                if c = CHR ''+'' then parse_digits False 0 cs
                else if c = CHR ''-'' then map_option uminus (parse_digits False 0 cs)
                else parse_digits False 0 (c # cs)))"

definition trunc :: "rat \<Rightarrow> int" where
  "trunc q = (if 0 \<le> q then \<lfloor>q\<rfloor> else \<lceil>q\<rceil>)"

fun py_int :: "pyval \<Rightarrow> py_error + int" where
  "py_int PNone = Inl TypeError"
| "py_int (PBool b) = Inr (if b then 1 else 0)"
| "py_int (PInt n) = Inr n"
| "py_int (PFloat (Finite q)) = Inr (trunc q)"
| "py_int (PFloat PosInf) = Inl OverflowError"
| "py_int (PFloat NegInf) = Inl OverflowError"
| "py_int (PFloat NaN) = Inl ValueError"
| "py_int (PStr s) = (case int_of_str s of Some n \<Rightarrow> Inr n | None \<Rightarrow> Inl ValueError)"
| "py_int (PList xs) = Inl TypeError"
| "py_int (PDict kvs) = Inl TypeError"

section \<open>Regular expressions\<close>

text \<open>
  Every pattern of the program is a sequence of atoms of four kinds: a character class
  under a greedy quantifier (\<^verbatim>\<open>[..]\<close>, \<^verbatim>\<open>[..]?\<close>, \<^verbatim>\<open>[..]+\<close>, \<^verbatim>\<open>[..]*\<close>, \<^verbatim>\<open>[..]{m,n}\<close>), an
  alternation of literal words, the word boundary \<^verbatim>\<open>\b\<close>, and the anchors \<^verbatim>\<open>^\<close> and \<^verbatim>\<open>$\<close>.
  \<open>match_atoms\<close> is the backtracking matcher of \<^verbatim>\<open>re\<close> on such sequences: a quantifier
  tries the longest repetition first and gives characters back one at a time, an
  alternation tries its words from left to right. The result is the number of
  characters each atom consumed in the first successful attempt. \<open>prev\<close> is the
  character before the current position (\<open>None\<close> at the start of the string).
\<close>

datatype atom =
    Rep "char \<Rightarrow> bool" nat "nat option"
  | Alt "string list"
  | WordB
  | Bol
  | Eol

fun first_some :: "'a option list \<Rightarrow> 'a option" where
  "first_some [] = None"
| "first_some (Some x # xs) = Some x"
| "first_some (None # xs) = first_some xs"

definition step_prev :: "char option \<Rightarrow> string \<Rightarrow> char option" where
  "step_prev prev consumed = (if consumed = [] then prev else Some (last consumed))"

definition boundary :: "char option \<Rightarrow> string \<Rightarrow> bool" where
  "boundary prev s =
     ((case prev of None \<Rightarrow> False | Some c \<Rightarrow> word_char c) \<noteq>
      (case s of [] \<Rightarrow> False | c # cs \<Rightarrow> word_char c))"

fun match_atoms :: "atom list \<Rightarrow> char option \<Rightarrow> string \<Rightarrow> nat list option" where
  "match_atoms [] prev s = Some []"
| "match_atoms (Rep p lo hi # as) prev s =
     (let m = length (takeWhile p s);
          n = (case hi of None \<Rightarrow> m | Some h \<Rightarrow> min h m)
      in first_some
           (map (\<lambda>k. map_option ((#) k)
                         (match_atoms as (step_prev prev (take k s)) (drop k s)))
                (rev [lo..<Suc n])))"
| "match_atoms (Alt ws # as) prev s =
     first_some
       (map (\<lambda>w. if prefix w s
                  then map_option ((#) (length w))
                         (match_atoms as (step_prev prev w) (drop (length w) s))
                  else None)
            ws)"
| "match_atoms (WordB # as) prev s =
     (if boundary prev s then map_option ((#) 0) (match_atoms as prev s) else None)"
| "match_atoms (Bol # as) prev s =
     (if prev = None then map_option ((#) 0) (match_atoms as prev s) else None)"
| "match_atoms (Eol # as) prev s =
     (if s = [] \<or> s = [CHR 0x0A] then map_option ((#) 0) (match_atoms as prev s) else None)"

text \<open>
  \<^verbatim>\<open>re.search\<close>: the first start position, from the left, at which the pattern matches.
  A match is its start position and the lengths consumed by the atoms.
\<close>

type_synonym rematch = "nat \<times> nat list"

fun search_from :: "atom list \<Rightarrow> char option \<Rightarrow> string \<Rightarrow> nat \<Rightarrow> rematch option" where
  "search_from pat prev [] i = map_option (Pair i) (match_atoms pat prev [])"
| "search_from pat prev (c # cs) i =
     (case match_atoms pat prev (c # cs) of
        Some ns \<Rightarrow> Some (i, ns)
      | None \<Rightarrow> search_from pat (Some c) cs (Suc i))"

definition re_search :: "atom list \<Rightarrow> string \<Rightarrow> rematch option" where
  "re_search pat s = search_from pat None s 0"

text \<open>\<^verbatim>\<open>re.match\<close>: a match that starts at position 0.\<close>

definition re_match :: "atom list \<Rightarrow> string \<Rightarrow> rematch option" where
  "re_match pat s = map_option (Pair 0) (match_atoms pat None s)"

text \<open>\<^verbatim>\<open>m.group()\<close>: the matched text; \<^verbatim>\<open>m.group(1)\<close> when the group is the first atom.\<close>

definition group :: "string \<Rightarrow> rematch \<Rightarrow> string" where
  "group s m = take (sum_list (snd m)) (drop (fst m) s)"

definition group1 :: "string \<Rightarrow> rematch \<Rightarrow> string" where
  "group1 s m = (case snd m of [] \<Rightarrow> [] | k # ks \<Rightarrow> take k (drop (fst m) s))"

abbreviation one :: "(char \<Rightarrow> bool) \<Rightarrow> atom" where
  "one p \<equiv> Rep p 1 (Some 1)"

abbreviation opt :: "(char \<Rightarrow> bool) \<Rightarrow> atom" where
  "opt p \<equiv> Rep p 0 (Some 1)"

abbreviation plus :: "(char \<Rightarrow> bool) \<Rightarrow> atom" where
  "plus p \<equiv> Rep p 1 None"

abbreviation star :: "(char \<Rightarrow> bool) \<Rightarrow> atom" where
  "star p \<equiv> Rep p 0 None"

definition lit :: "string \<Rightarrow> atom list" where
  "lit w = map (\<lambda>ch. one (\<lambda>c. c = ch)) w"

definition among :: "string \<Rightarrow> char \<Rightarrow> bool" where
  "among cs c = (c \<in> set cs)"

definition alnum :: "char \<Rightarrow> bool" where
  "alnum c = (ascii_upper c \<or> ascii_lower c \<or> isdecimal c)"

definition alpha :: "char \<Rightarrow> bool" where
  "alpha c = (ascii_upper c \<or> ascii_lower c)"

subsection \<open>The patterns of the program\<close>

text \<open>\<^verbatim>\<open>\b[A-Za-z0-9._%+-]+@[A-Za-z0-9.-]+\.[A-Z|a-z]{2,}\b\<close>\<close>

definition email_pattern :: "atom list" where
  "email_pattern =
     [WordB,
      plus (\<lambda>c. alnum c \<or> among ''._%+-'' c),
      one (\<lambda>c. c = CHR ''@''),
      plus (\<lambda>c. alnum c \<or> among ''.-'' c),
      one (\<lambda>c. c = CHR ''.''),
      Rep (\<lambda>c. alpha c \<or> c = CHR ''|'') 2 None,
      WordB]"

text \<open>
  \<^verbatim>\<open>[\+]?[(]?[0-9]{1,4}[)]?[-\s\.]?[(]?[0-9]{1,4}[)]?[-\s\.]?[0-9]{1,5}[-\s\.]?[0-9]{1,5}\<close>
\<close>

definition sep_char :: "char \<Rightarrow> bool" where
  "sep_char c = (c = CHR ''-'' \<or> isspace c \<or> c = CHR ''.'')"

definition phone_pattern :: "atom list" where
  "phone_pattern =
     [opt (\<lambda>c. c = CHR ''+''),
      opt (\<lambda>c. c = CHR ''(''),
      Rep isdecimal 1 (Some 4),
      opt (\<lambda>c. c = CHR '')''),
      opt sep_char,
      opt (\<lambda>c. c = CHR ''(''),
      Rep isdecimal 1 (Some 4),
      opt (\<lambda>c. c = CHR '')''),
      opt sep_char,
      Rep isdecimal 1 (Some 5),
      opt sep_char,
      Rep isdecimal 1 (Some 5)]"

text \<open>
  \<^verbatim>\<open>(\d+)\s*(?:years?|yrs?)\<close>. The greedy \<^verbatim>\<open>s?\<close> tries the word with the \<^verbatim>\<open>s\<close> first, so
  the alternation tries \<^verbatim>\<open>years\<close>, \<^verbatim>\<open>year\<close>, \<^verbatim>\<open>yrs\<close>, \<^verbatim>\<open>yr\<close> in this order.
\<close>

definition years_pattern :: "atom list" where
  "years_pattern =
     [plus isdecimal, star isspace, Alt [''years'', ''year'', ''yrs'', ''yr'']]"

text \<open>\<^verbatim>\<open>^[A-Za-z\s\-']+$\<close>\<close>

definition name_pattern :: "atom list" where
  "name_pattern =
     [Bol, plus (\<lambda>c. alpha c \<or> isspace c \<or> c = CHR ''-'' \<or> c = CHR 0x27), Eol]"

text \<open>\<^verbatim>\<open>^[A-Za-z\s\-,\.]+$\<close>\<close>

definition location_pattern :: "atom list" where
  "location_pattern =
     [Bol, plus (\<lambda>c. alpha c \<or> isspace c \<or> among ''-,.'' c), Eol]"

text \<open>\<^verbatim>\<open>\{.*\}\<close> under \<^verbatim>\<open>re.DOTALL\<close>.\<close>

definition json_pattern :: "atom list" where
  "json_pattern = [one (\<lambda>c. c = CHR ''{''), star (\<lambda>c. True), one (\<lambda>c. c = CHR ''}'')]"

text \<open>
  \<^verbatim>\<open>r'\b' + re.escape(indicator) + r'\b'\<close>; the indicators are words of letters, which
  \<^verbatim>\<open>re.escape\<close> leaves as they are.
\<close>

definition indicator_pattern :: "string \<Rightarrow> atom list" where
  "indicator_pattern indicator = WordB # lit indicator @ [WordB]"

definition position_keywords :: "string list" where
  "position_keywords =
     [''tester'', ''developer'', ''engineer'', ''analyst'', ''manager'', ''designer'',
      ''architect'', ''consultant'', ''specialist'', ''lead'', ''programmer'',
      ''administrator'', ''devops'', ''qa'', ''scientist'', ''intern'', ''associate'']"

section \<open>The profile: \<^verbatim>\<open>CandidateInfo\<close>\<close>

text \<open>
  \<^verbatim>\<open>__post_init__\<close> replaces a \<^verbatim>\<open>None\<close> list field by \<^verbatim>\<open>[]\<close>, so the two list fields
  are always lists. Every entry appended to them by this program is a \<^verbatim>\<open>str\<close>
  (\<^verbatim>\<open>.lower()\<close> has been called on it, or it is \<^verbatim>\<open>message.strip()\<close>).
  \<^verbatim>\<open>years_experience\<close> is only ever assigned the result of \<^verbatim>\<open>int(...)\<close>.
\<close>

record candidate_info =
  full_name :: pyval
  email :: pyval
  phone :: pyval
  years_experience :: "int option"
  desired_positions :: "string list"
  current_location :: pyval
  tech_stack :: "string list"

definition CandidateInfo :: candidate_info where
  "CandidateInfo =
     \<lparr>full_name = PNone, email = PNone, phone = PNone, years_experience = None,
      desired_positions = [], current_location = PNone, tech_stack = []\<rparr>"

text \<open>\<^verbatim>\<open>is_complete\<close>: \<^verbatim>\<open>all([...])\<close> over the truth values of the seven entries.\<close>

definition is_complete :: "candidate_info \<Rightarrow> bool" where
  "is_complete ci =
     list_all id
       [truthy (full_name ci),
        truthy (email ci),
        truthy (phone ci),
        years_experience ci \<noteq> None,
        desired_positions ci \<noteq> [],
        truthy (current_location ci),
        tech_stack ci \<noteq> []]"

section \<open>\<^verbatim>\<open>LLMHandler.extract_json\<close>\<close>

text \<open>
  \<^verbatim>\<open>json.loads\<close> belongs to the standard library and is a parameter \<open>loads\<close> of the model:
  \<open>loads t\<close> is \<open>None\<close> where \<^verbatim>\<open>json.loads\<close> raises \<^verbatim>\<open>JSONDecodeError\<close>. \<^verbatim>\<open>extract_json\<close>
  returns \<^verbatim>\<open>None\<close> when the text has no brace-delimited part or when that part does
  not parse.
\<close>

definition extract_json :: "(string \<Rightarrow> pyval option) \<Rightarrow> string \<Rightarrow> pyval" where
  "extract_json loads text =
     (case re_search json_pattern text of
        Some json_match \<Rightarrow>
          (case loads (group text json_match) of Some v \<Rightarrow> v | None \<Rightarrow> PNone)
      | None \<Rightarrow> PNone)"

text \<open>\<^verbatim>\<open>d.get(key)\<close> on a dictionary.\<close>

definition dict_get :: "(string \<times> pyval) list \<Rightarrow> string \<Rightarrow> pyval" where
  "dict_get d key = (case map_of d key of Some v \<Rightarrow> v | None \<Rightarrow> PNone)"

section \<open>\<^verbatim>\<open>ConversationHandler.extract_candidate_info\<close>\<close>

subsection \<open>The regular-expression heuristics\<close>

definition extract_email :: "string \<Rightarrow> candidate_info \<Rightarrow> candidate_info" where
  "extract_email message ci =
     (case re_search email_pattern message of
        Some email_match \<Rightarrow>
          if \<not> truthy (email ci) then ci\<lparr>email := PStr (group message email_match)\<rparr> else ci
      | None \<Rightarrow> ci)"

definition extract_phone :: "string \<Rightarrow> candidate_info \<Rightarrow> candidate_info" where
  "extract_phone message ci =
     (case re_search phone_pattern message of
        Some phone_match \<Rightarrow>
          if \<not> truthy (phone ci) \<and> length (group message phone_match) \<ge> 10
          then ci\<lparr>phone := PStr (group message phone_match)\<rparr> else ci
      | None \<Rightarrow> ci)"

definition extract_years :: "string \<Rightarrow> candidate_info \<Rightarrow> candidate_info" where
  "extract_years message ci =
     (case re_search years_pattern (lower message) of
        Some years_match \<Rightarrow>
          if years_experience ci = None
          then (case int_of_str (group1 (lower message) years_match) of
                  Some n \<Rightarrow> ci\<lparr>years_experience := Some n\<rparr>
                | None \<Rightarrow> ci)
          else ci
      | None \<Rightarrow> ci)"

definition extract_name :: "string \<Rightarrow> candidate_info \<Rightarrow> candidate_info" where
  "extract_name message ci =
     (if \<not> truthy (full_name ci) \<and> length (split message) \<le> 3
      then (case re_match name_pattern (strip message) of
              Some m \<Rightarrow>
                (let potential_name = strip message
                 in if lower potential_name \<notin> set position_keywords
                    then ci\<lparr>full_name := PStr potential_name\<rparr> else ci)
            | None \<Rightarrow> ci)
      else ci)"

definition missing_fields :: "candidate_info \<Rightarrow> string list" where
  "missing_fields ci =
     (if \<not> truthy (full_name ci) then [''name''] else []) @
     (if \<not> truthy (email ci) then [''email''] else []) @
     (if \<not> truthy (phone ci) then [''phone''] else []) @
     (if years_experience ci = None then [''experience''] else []) @
     (if desired_positions ci = [] then [''positions''] else []) @
     (if tech_stack ci = [] then [''tech''] else [])"

definition extract_location :: "string \<Rightarrow> candidate_info \<Rightarrow> candidate_info" where
  "extract_location message ci =
     (if \<not> truthy (current_location ci) \<and> length (split message) \<le> 3
      then (case re_match location_pattern (strip message) of
              Some m \<Rightarrow>
                (let potential_location = strip message
                 in if lower potential_location \<notin> set position_keywords \<and>
                       PStr potential_location \<noteq> full_name ci
                    then (if length (missing_fields ci) \<le> 1
                          then ci\<lparr>current_location := PStr potential_location\<rparr> else ci)
                    else ci)
            | None \<Rightarrow> ci)
      else ci)"

definition heuristics :: "string \<Rightarrow> candidate_info \<Rightarrow> candidate_info" where
  "heuristics message ci =
     extract_location message
       (extract_name message
         (extract_years message
           (extract_phone message
             (extract_email message ci))))"

subsection \<open>Merging the answer of the language model\<close>

text \<open>A text slot: assigned only when the new value is truthy and the slot is not.\<close>

definition merge_text :: "pyval \<Rightarrow> pyval \<Rightarrow> pyval" where
  "merge_text new cur = (if truthy new \<and> \<not> truthy cur then new else cur)"

text \<open>
  \<^verbatim>\<open>years_experience\<close>: \<^verbatim>\<open>int(...)\<close> under \<^verbatim>\<open>except (ValueError, TypeError): pass\<close>; any other
  exception of \<^verbatim>\<open>int\<close> leaves the function.
\<close>

definition merge_years :: "pyval \<Rightarrow> int option \<Rightarrow> py_error option \<times> int option" where
  "merge_years new cur =
     (if new \<noteq> PNone \<and> cur = None
      then (case py_int new of
              Inr n \<Rightarrow> (None, Some n)
            | Inl e \<Rightarrow> if e = ValueError \<or> e = TypeError then (None, cur) else (Some e, cur))
      else (None, cur))"

text \<open>
  A list field. \<^verbatim>\<open>existing_lower\<close> is computed once, before the loop; each item whose
  lower-case form is not in it is appended. An item that is not a string has no
  \<^verbatim>\<open>.lower()\<close>: the loop stops with \<^verbatim>\<open>AttributeError\<close> and the items appended so far stay.
\<close>

fun append_new :: "string list \<Rightarrow> pyval list \<Rightarrow> string list \<Rightarrow> py_error option \<times> string list" where
  "append_new existing_lower [] field = (None, field)"
| "append_new existing_lower (PStr s # items) field =
     (if lower s \<notin> set existing_lower
      then append_new existing_lower items (field @ [s])
      else append_new existing_lower items field)"
| "append_new existing_lower (v # items) field = (Some AttributeError, field)"

definition merge_list :: "pyval \<Rightarrow> string list \<Rightarrow> py_error option \<times> string list" where
  "merge_list new field =
     (if \<not> truthy new then (None, field)
      else (case new of
              PList items \<Rightarrow> append_new (map lower field) items field
            | PStr s \<Rightarrow> (None, if lower s \<notin> set (map lower field) then field @ [s] else field)
            | _ \<Rightarrow> (Some AttributeError, field)))"

text \<open>
  The block under \<^verbatim>\<open>if extracted:\<close>. The result is the exception that left the block, if
  any, and the profile as the assignments made so far have left it.
\<close>

definition merge_extracted :: "pyval \<Rightarrow> candidate_info \<Rightarrow> py_error option \<times> candidate_info" where
  "merge_extracted extracted ci =
     (if \<not> truthy extracted then (None, ci)
      else (case extracted of
        PDict d \<Rightarrow>
          (let ci1 = ci\<lparr>full_name := merge_text (dict_get d ''full_name'') (full_name ci)\<rparr>;
               ci2 = ci1\<lparr>email := merge_text (dict_get d ''email'') (email ci1)\<rparr>;
               ci3 = ci2\<lparr>phone := merge_text (dict_get d ''phone'') (phone ci2)\<rparr>
           in case merge_years (dict_get d ''years_experience'') (years_experience ci3) of
                (Some e, y) \<Rightarrow> (Some e, ci3)
              | (None, y) \<Rightarrow>
                  (let ci4 = ci3\<lparr>years_experience := y\<rparr>
                   in case merge_list (dict_get d ''desired_positions'') (desired_positions ci4) of
                        (Some e, ps) \<Rightarrow> (Some e, ci4\<lparr>desired_positions := ps\<rparr>)
                      | (None, ps) \<Rightarrow>
                          (let ci5 = ci4\<lparr>desired_positions := ps\<rparr>;
                               ci6 = ci5\<lparr>current_location :=
                                          merge_text (dict_get d ''current_location'')
                                            (current_location ci5)\<rparr>
                           in case merge_list (dict_get d ''tech_stack'') (tech_stack ci6) of
                                (e, ts) \<Rightarrow> (e, ci6\<lparr>tech_stack := ts\<rparr>))))
      | _ \<Rightarrow> (Some AttributeError, ci)))"

subsection \<open>The position-keyword fallback\<close>

definition position_fallback :: "string \<Rightarrow> candidate_info \<Rightarrow> candidate_info" where
  "position_fallback message ci =
     (if desired_positions ci = [] \<and> \<not> truthy (full_name ci)
      then (if list_ex (\<lambda>indicator. re_search (indicator_pattern indicator) (lower message) \<noteq> None)
                 position_keywords
            then (let position_to_add = strip message
                  in if position_to_add \<noteq> [] \<and> length position_to_add < 50
                     then ci\<lparr>desired_positions := desired_positions ci @ [position_to_add]\<rparr>
                     else ci)
            else ci)
      else ci)"

subsection \<open>The whole pass\<close>

text \<open>
  \<open>response\<close> is the text the language model returned for this message
  (\<^verbatim>\<open>generate_response\<close> returns the localized error text when the call fails). The
  profile object is modified in place: the result is the exception that left the function,
  if any, and the contents of the object on leaving.
\<close>

definition extract_candidate_info ::
  "(string \<Rightarrow> pyval option) \<Rightarrow> string \<Rightarrow> string \<Rightarrow> candidate_info \<Rightarrow>
     py_error option \<times> candidate_info" where
  "extract_candidate_info loads response message current_info =
     (case merge_extracted (extract_json loads response) (heuristics message current_info) of
        (Some e, ci) \<Rightarrow> (Some e, ci)
      | (None, ci) \<Rightarrow> (None, position_fallback message ci))"

section \<open>The collaborators of the conversation\<close>

text \<open>
  What the modelled code takes from outside: \<^verbatim>\<open>json.loads\<close>; the table of the
  \<^verbatim>\<open>LanguageManager\<close> for the current language (key to text); \<^verbatim>\<open>str.format\<close> with keyword
  arguments; and \<^verbatim>\<open>str(v)\<close> for a value that is not a string, as an f-string needs it.
\<close>

record env =
  json_loads :: "string \<Rightarrow> pyval option"
  lang_table :: "string \<Rightarrow> string option"
  str_format :: "string \<Rightarrow> (string \<times> pyval) list \<Rightarrow> string"
  py_str :: "pyval \<Rightarrow> string"

text \<open>\<^verbatim>\<open>LanguageManager.get(key)\<close>, with its default \<^verbatim>\<open>""\<close>.\<close>

definition lang_get :: "env \<Rightarrow> string \<Rightarrow> string" where
  "lang_get E key = (case lang_table E key of Some t \<Rightarrow> t | None \<Rightarrow> [])"

definition format_greeting :: "env \<Rightarrow> string" where
  "format_greeting E = lang_get E ''greeting''"

definition question_map :: "(string \<times> string) list" where
  "question_map =
     [(''full name'', ''next_name''),
      (''email address'', ''next_email''),
      (''phone number'', ''next_phone''),
      (''years of experience'', ''next_experience''),
      (''desired position(s)'', ''next_position''),
      (''current location'', ''next_location''),
      (''tech stack'', ''next_tech_stack'')]"

definition format_next_question :: "env \<Rightarrow> string \<Rightarrow> string" where
  "format_next_question E field =
     lang_get E (case map_of question_map field of Some key \<Rightarrow> key | None \<Rightarrow> ''next_name'')"

text \<open>\<^verbatim>\<open>sep.join(xs)\<close>\<close>

definition join :: "string \<Rightarrow> string list \<Rightarrow> string" where
  "join sep xs = (case xs of [] \<Rightarrow> [] | x # rest \<Rightarrow> x @ concat (map (\<lambda>y. sep @ y) rest))"

definition format_tech_intro :: "env \<Rightarrow> pyval \<Rightarrow> string list \<Rightarrow> string" where
  "format_tech_intro E name stack =
     str_format E (lang_get E ''tech_questions_intro'')
       [(''name'', name),
        (''tech_stack'', PStr (if stack \<noteq> [] then join '', '' stack else ''your technologies''))]"

definition format_question :: "env \<Rightarrow> nat \<Rightarrow> nat \<Rightarrow> string" where
  "format_question E current n =
     str_format E (lang_get E ''question_format'')
       [(''current'', PInt (int current)), (''total'', PInt (int n))]"

text \<open>A value inside an f-string.\<close>

definition fstr :: "env \<Rightarrow> pyval \<Rightarrow> string" where
  "fstr E v = (case v of PStr s \<Rightarrow> s | _ \<Rightarrow> py_str E v)"

text \<open>\<^verbatim>\<open>len(v)\<close> and \<^verbatim>\<open>v[i]\<close> for a non-negative \<open>i\<close>; the keys of a parsed JSON object are strings.\<close>

fun py_len :: "pyval \<Rightarrow> py_error + nat" where
  "py_len (PList xs) = Inr (length xs)"
| "py_len (PStr s) = Inr (length s)"
| "py_len (PDict kvs) = Inr (length kvs)"
| "py_len v = Inl TypeError"

fun py_getitem :: "pyval \<Rightarrow> nat \<Rightarrow> py_error + pyval" where
  "py_getitem (PList xs) i = (if i < length xs then Inr (xs ! i) else Inl IndexError)"
| "py_getitem (PStr s) i = (if i < length s then Inr (PStr [s ! i]) else Inl IndexError)"
| "py_getitem (PDict kvs) i = Inl KeyError"
| "py_getitem v i = Inl TypeError"

section \<open>\<^verbatim>\<open>ConversationHandler\<close>: the remaining methods\<close>

definition end_keywords :: "string list" where
  "end_keywords = [''exit'', ''quit'', ''stop'', ''bye'', ''goodbye'', ''cancel'']"

definition should_end_conversation :: "string \<Rightarrow> bool" where
  "should_end_conversation message =
     list_ex (\<lambda>keyword. py_in keyword (lower message)) end_keywords"

definition get_missing_info :: "candidate_info \<Rightarrow> string list" where
  "get_missing_info ci =
     (if \<not> truthy (full_name ci) then [''full name''] else []) @
     (if \<not> truthy (email ci) then [''email address''] else []) @
     (if \<not> truthy (phone ci) then [''phone number''] else []) @
     (if years_experience ci = None then [''years of experience''] else []) @
     (if desired_positions ci = [] then [''desired position(s)''] else []) @
     (if \<not> truthy (current_location ci) then [''current location''] else []) @
     (if tech_stack ci = [] then [''tech stack''] else [])"

text \<open>
  \<^verbatim>\<open>generate_next_question\<close>: \<^verbatim>\<open>None\<close> when nothing is missing, the canned prompt when one
  field is missing, and otherwise the text \<open>reply\<close> the language model returns.
\<close>

definition generate_next_question :: "env \<Rightarrow> string \<Rightarrow> candidate_info \<Rightarrow> string option" where
  "generate_next_question E reply ci =
     (let missing = get_missing_info ci
      in case missing of
           [] \<Rightarrow> None
         | [field] \<Rightarrow> Some (format_next_question E field)
         | _ \<Rightarrow> Some reply)"

text \<open>
  \<^verbatim>\<open>generate_technical_questions\<close>; \<open>response\<close> is the text the language model returned.
\<close>

definition fallback_questions :: "candidate_info \<Rightarrow> pyval" where
  "fallback_questions ci =
     PList
       [PStr (''Can you describe your experience with '' @
              (case tech_stack ci of [] \<Rightarrow> ''your primary technology'' | t # ts \<Rightarrow> t) @ ''?''),
        PStr (''What'' @ [CHR 0x27] @
              ''s the most challenging technical problem you'' @ [CHR 0x27] @
              ''ve solved recently?''),
        PStr ''How do you stay updated with new technologies in your field?'']"

definition generate_technical_questions ::
  "(string \<Rightarrow> pyval option) \<Rightarrow> string \<Rightarrow> candidate_info \<Rightarrow> pyval" where
  "generate_technical_questions loads response ci =
     (let questions = extract_json loads response
      in case questions of
           PList qs \<Rightarrow> questions
         | PDict d \<Rightarrow>
             (case map_of d ''questions'' of
                Some v \<Rightarrow> v
              | None \<Rightarrow> fallback_questions ci)
         | _ \<Rightarrow> fallback_questions ci)"

definition generate_farewell :: "env \<Rightarrow> string" where
  "generate_farewell E = lang_get E ''farewell''"

section \<open>The store: \<^verbatim>\<open>DatabaseManager\<close>\<close>

text \<open>
  The tables of the store, restricted to the rows of the one session that is modelled:
  the row of table \<^verbatim>\<open>candidates\<close> for this session identifier (its id and the profile last
  written), and this candidate's rows of \<^verbatim>\<open>technical_questions\<close> (question index and
  question), \<^verbatim>\<open>technical_answers\<close> (the position of the question row and the answer) and
  \<^verbatim>\<open>conversation_logs\<close> (role and content), in insertion order. \<open>fresh_id\<close> is the id the
  store gives a new row of \<^verbatim>\<open>candidates\<close>. A flag \<open>up\<close> tells whether the calls to the store
  made in one run of the script succeed; when it is false they raise.
\<close>

record database =
  candidate_row :: "(nat \<times> candidate_info) option"
  fresh_id :: nat
  question_rows :: "(nat \<times> pyval) list"
  answer_rows :: "(nat \<times> string) list"
  log_rows :: "(string \<times> string) list"

text \<open>
  The values the store can bind to a parameter: lists and dictionaries are refused
  (\<^verbatim>\<open>ProgrammingError\<close>), and so is an integer outside the 64-bit range (\<^verbatim>\<open>OverflowError\<close>).
  \<^verbatim>\<open>None\<close> is bound as \<^verbatim>\<open>NULL\<close>, and so is the float \<^verbatim>\<open>NaN\<close>: a column declared \<^verbatim>\<open>NOT NULL\<close>
  refuses both (\<^verbatim>\<open>IntegrityError\<close>).
\<close>

definition int64 :: "int \<Rightarrow> bool" where
  "int64 n = (- (2 ^ 63) \<le> n \<and> n < 2 ^ 63)"

fun bindable :: "pyval \<Rightarrow> bool" where
  "bindable (PList xs) = False"
| "bindable (PDict kvs) = False"
| "bindable (PInt n) = int64 n"
| "bindable v = True"

definition binds_null :: "pyval \<Rightarrow> bool" where
  "binds_null v = (v = PNone \<or> v = PFloat NaN)"

text \<open>\<^verbatim>\<open>create_or_update_candidate\<close>: \<open>None\<close> when it raises, else the id of the row.\<close>

definition create_or_update_candidate ::
  "bool \<Rightarrow> candidate_info \<Rightarrow> database \<Rightarrow> (nat \<times> database) option" where
  "create_or_update_candidate up ci db =
     (if up \<and> bindable (full_name ci) \<and> bindable (email ci) \<and> bindable (phone ci) \<and>
         (case years_experience ci of None \<Rightarrow> True | Some years \<Rightarrow> int64 years) \<and>
         bindable (current_location ci)
      then (let candidate_id = (case candidate_row db of
                                  Some existing \<Rightarrow> fst existing
                                | None \<Rightarrow> fresh_id db)
            in Some (candidate_id, db\<lparr>candidate_row := Some (candidate_id, ci)\<rparr>))
      else None)"

text \<open>\<^verbatim>\<open>save_conversation_log\<close> catches its own exceptions.\<close>

definition save_conversation_log :: "bool \<Rightarrow> string \<Rightarrow> string \<Rightarrow> database \<Rightarrow> database" where
  "save_conversation_log up role content db =
     (if up then db\<lparr>log_rows := log_rows db @ [(role, content)]\<rparr> else db)"

text \<open>
  \<^verbatim>\<open>save_technical_questions\<close>: one row per item of \<^verbatim>\<open>enumerate(questions)\<close>; \<open>None\<close> when it
  raises (nothing is committed then). The column \<^verbatim>\<open>question\<close> is declared \<^verbatim>\<open>NOT NULL\<close>.
\<close>

fun py_iter :: "pyval \<Rightarrow> pyval list option" where
  "py_iter (PList xs) = Some xs"
| "py_iter (PStr s) = Some (map (\<lambda>c. PStr [c]) s)"
| "py_iter (PDict kvs) = Some (map (\<lambda>kv. PStr (fst kv)) kvs)"
| "py_iter v = None"

definition save_technical_questions :: "bool \<Rightarrow> pyval \<Rightarrow> database \<Rightarrow> database option" where
  "save_technical_questions up questions db =
     (case py_iter questions of
        Some qs \<Rightarrow>
          if up \<and> list_all (\<lambda>q. bindable q \<and> \<not> binds_null q) qs
          then Some (db\<lparr>question_rows := question_rows db @ zip [0..<length qs] qs\<rparr>)
          else None
      | None \<Rightarrow> None)"

text \<open>
  \<^verbatim>\<open>save_technical_answer\<close>: the answer is stored against the first question row with the
  given index; when there is none the method returns without storing. \<open>None\<close> when it
  raises, which it also does when the index is outside the 64-bit range.
\<close>

fun find_question :: "int \<Rightarrow> (nat \<times> pyval) list \<Rightarrow> nat \<Rightarrow> nat option" where
  "find_question question_index [] pos = None"
| "find_question question_index (row # rows) pos =
     (if int (fst row) = question_index then Some pos
      else find_question question_index rows (Suc pos))"

definition save_technical_answer :: "bool \<Rightarrow> int \<Rightarrow> string \<Rightarrow> database \<Rightarrow> database option" where
  "save_technical_answer up question_index answer db =
     (if up \<and> int64 question_index
      then (case find_question question_index (question_rows db) 0 of
              Some question_id \<Rightarrow>
                Some (db\<lparr>answer_rows := answer_rows db @ [(question_id, answer)]\<rparr>)
            | None \<Rightarrow> Some db)
      else None)"

section \<open>The session state and one run of \<^verbatim>\<open>main\<close>\<close>

datatype phase = Greeting | Info_gathering | Technical_questions | Completed

text \<open>
  The entries of \<^verbatim>\<open>st.session_state\<close> that the conversation uses, and the store behind
  \<^verbatim>\<open>db_manager\<close>. The voice manager, the language selector and the widgets of the page
  change none of them and are left out.
\<close>

record session =
  messages :: "(string \<times> string) list"
  candidate_info :: candidate_info
  phase :: phase
  technical_questions :: pyval
  current_question_index :: nat
  conversation_started :: bool
  candidate_id :: "nat option"
  last_technical_answer :: "string option"
  pending_update :: bool
  update_field :: "string option"
  store :: database

definition init_session_state :: "database \<Rightarrow> session" where
  "init_session_state db =
     \<lparr>messages = [], candidate_info = CandidateInfo, phase = Greeting,
      technical_questions = PList [], current_question_index = 0,
      conversation_started = False, candidate_id = None, last_technical_answer = None,
      pending_update = False, update_field = None, store = db\<rparr>"

text \<open>
  What one run of the script receives from outside: the message typed into the chat input
  (\<open>None\<close> when the run was not started by a message), the texts the language model
  returns to the three prompts, and whether the store answers.
\<close>

record inputs =
  prompt :: "string option"
  extraction_reply :: string
  questions_reply :: string
  next_question_reply :: string
  db_up :: bool

text \<open>How a run ends, as far as the source shows it.\<close>

datatype outcome =
    Replied string
  | Stopped string
  | Raised py_error
  | Idle

text \<open>\<^verbatim>\<open>if st.session_state.candidate_id:\<close>\<close>

definition has_candidate_id :: "session \<Rightarrow> bool" where
  "has_candidate_id s = (case candidate_id s of Some n \<Rightarrow> n \<noteq> 0 | None \<Rightarrow> False)"

definition save_candidate_to_db :: "bool \<Rightarrow> session \<Rightarrow> session" where
  "save_candidate_to_db up s =
     (case create_or_update_candidate up (candidate_info s) (store s) of
        Some (cid, db) \<Rightarrow> s\<lparr>store := db, candidate_id := Some cid\<rparr>
      | None \<Rightarrow> s)"

definition save_message_to_db :: "bool \<Rightarrow> string \<Rightarrow> string \<Rightarrow> session \<Rightarrow> session" where
  "save_message_to_db up role content s =
     (if has_candidate_id s
      then s\<lparr>store := save_conversation_log up role content (store s)\<rparr>
      else s)"

definition newline :: string where
  "newline = [CHR 0x0A]"

text \<open>
  The part \<^verbatim>\<open>**{format_question(i + 1, len(questions))}**\n{questions[i]}\<close> of the three
  f-strings that present a question; \<^verbatim>\<open>len\<close> is evaluated before the subscript.
\<close>

definition question_block :: "env \<Rightarrow> pyval \<Rightarrow> nat \<Rightarrow> py_error + string" where
  "question_block E questions i =
     (case py_len questions of
        Inl e \<Rightarrow> Inl e
      | Inr n \<Rightarrow>
          (case py_getitem questions i of
             Inl e \<Rightarrow> Inl e
           | Inr q \<Rightarrow>
               Inr (''**'' @ format_question E (i + 1) n @ ''**'' @ newline @ fstr E q)))"

text \<open>Lines 925 to 934: the greeting.\<close>

definition start_conversation :: "env \<Rightarrow> bool \<Rightarrow> session \<Rightarrow> session" where
  "start_conversation E up s =
     (if \<not> conversation_started s
      then save_message_to_db up ''assistant'' (format_greeting E)
             (s\<lparr>messages := messages s @ [(''assistant'', format_greeting E)],
                conversation_started := True\<rparr>)
      else s)"

text \<open>Lines 944 to 954: the answer staged by the previous run is written to the store.\<close>

definition flush_technical_answer :: "bool \<Rightarrow> session \<Rightarrow> session" where
  "flush_technical_answer up s =
     (case last_technical_answer s of
        Some answer \<Rightarrow>
          if answer \<noteq> [] \<and> has_candidate_id s
          then (case save_technical_answer up (int (current_question_index s) - 1) answer
                       (store s) of
                  Some db \<Rightarrow> s\<lparr>store := db, last_technical_answer := None\<rparr>
                | None \<Rightarrow> s)
          else s
      | None \<Rightarrow> s)"

definition update_keywords :: "string list" where
  "update_keywords = [''update'', ''change'', ''modify'', ''correct'', ''edit'']"

definition info_keywords :: "string list" where
  "info_keywords = [''location'', ''email'', ''phone'', ''name'', ''position'', ''tech stack'']"

definition wants_to_update :: "string \<Rightarrow> bool" where
  "wants_to_update p = list_ex (\<lambda>keyword. py_in keyword (lower p)) update_keywords"

definition mentions_info :: "string \<Rightarrow> bool" where
  "mentions_info p = list_ex (\<lambda>keyword. py_in keyword (lower p)) info_keywords"

definition is_update_request :: "string \<Rightarrow> bool" where
  "is_update_request p = (wants_to_update p \<and> mentions_info p)"

text \<open>Lines 965 to 976: the message is staged as the answer to the current question.\<close>

definition stage_answer :: "string \<Rightarrow> session \<Rightarrow> session" where
  "stage_answer p s =
     (if phase s = Technical_questions \<and> has_candidate_id s
      then (if \<not> is_update_request p \<and> \<not> pending_update s
            then s\<lparr>last_technical_answer := Some p\<rparr> else s)
      else s)"

text \<open>Lines 1035 to 1037: the response is shown, appended to the chat and logged.\<close>

definition reply :: "bool \<Rightarrow> string \<Rightarrow> session \<Rightarrow> outcome \<times> session" where
  "reply up response s =
     (Replied response,
      save_message_to_db up ''assistant'' response
        (s\<lparr>messages := messages s @ [(''assistant'', response)]\<rparr>))"

text \<open>
  Lines 994 to 1041: the phases \<^verbatim>\<open>greeting\<close> and \<^verbatim>\<open>info_gathering\<close>. An exception that
  leaves \<^verbatim>\<open>main\<close> ends the run; what was assigned before stays in the session state.
  \<^verbatim>\<open>generate_next_question\<close> is called only when \<^verbatim>\<open>is_complete()\<close> is false, and then it does
  not return \<^verbatim>\<open>None\<close>.
\<close>

definition info_branch :: "env \<Rightarrow> inputs \<Rightarrow> string \<Rightarrow> session \<Rightarrow> outcome \<times> session" where
  "info_branch E inp p s =
     (case extract_candidate_info (json_loads E) (extraction_reply inp) p (candidate_info s) of
        (Some e, ci) \<Rightarrow> (Raised e, s\<lparr>candidate_info := ci\<rparr>)
      | (None, ci) \<Rightarrow>
          (let s1 = save_candidate_to_db (db_up inp) (s\<lparr>candidate_info := ci\<rparr>)
           in if is_complete (candidate_info s1)
              then
                (let s2 = s1\<lparr>phase := Technical_questions,
                              technical_questions :=
                                generate_technical_questions (json_loads E) (questions_reply inp)
                                  (candidate_info s1)\<rparr>;
                     s3 = (if has_candidate_id s2
                           then (case save_technical_questions (db_up inp)
                                        (technical_questions s2) (store s2) of
                                   Some db \<Rightarrow> s2\<lparr>store := db\<rparr>
                                 | None \<Rightarrow> s2)
                           else s2)
                 in case question_block E (technical_questions s3) 0 of
                      Inl e \<Rightarrow> (Raised e, s3)
                    | Inr block \<Rightarrow>
                        reply (db_up inp)
                          (format_tech_intro E (full_name (candidate_info s3))
                             (tech_stack (candidate_info s3)) @ newline @ newline @ block)
                          (s3\<lparr>current_question_index := 0\<rparr>))
              else
                (case generate_next_question E (next_question_reply inp) (candidate_info s1) of
                   Some response \<Rightarrow> reply (db_up inp) response (s1\<lparr>phase := Info_gathering\<rparr>)
                 | None \<Rightarrow> (Raised TypeError, s1\<lparr>phase := Info_gathering\<rparr>))))"

text \<open>Lines 1077 to 1091: the field named by the update request is overwritten.\<close>

definition apply_update :: "string option \<Rightarrow> string \<Rightarrow> candidate_info \<Rightarrow> candidate_info" where
  "apply_update field p ci =
     (case field of
        None \<Rightarrow> ci
      | Some f \<Rightarrow>
          if f = [] then ci
          else if f = ''location'' then ci\<lparr>current_location := PStr (strip p)\<rparr>
          else if f = ''email''
          then (case re_search email_pattern p of
                  Some email_match \<Rightarrow> ci\<lparr>email := PStr (group p email_match)\<rparr>
                | None \<Rightarrow> ci)
          else if f = ''phone''
          then (case re_search phone_pattern p of
                  Some phone_match \<Rightarrow>
                    if length (group p phone_match) \<ge> 10
                    then ci\<lparr>phone := PStr (group p phone_match)\<rparr> else ci
                | None \<Rightarrow> ci)
          else ci)"

text \<open>
  Lines 1043 to 1116: the phase \<^verbatim>\<open>technical_questions\<close>, up to the point where the response
  has been computed. The source file ends inside this branch, before the response is
  shown; the outcome \<open>Replied\<close> carries the response the branch has computed.
  \<^verbatim>\<open>extract_candidate_info\<close> works on the profile object of the session itself, so what it
  assigns is in the session whichever way the update goes on.
\<close>

definition technical_branch :: "env \<Rightarrow> inputs \<Rightarrow> string \<Rightarrow> session \<Rightarrow> outcome \<times> session" where
  "technical_branch E inp p s =
     (if wants_to_update p \<and> mentions_info p
      then
        (let s1 = s\<lparr>pending_update := True, update_field := None\<rparr>
         in if py_in ''location'' (lower p)
            then (Replied (lang_get E ''update_location''), s1\<lparr>update_field := Some ''location''\<rparr>)
            else if py_in ''email'' (lower p)
            then (Replied (lang_get E ''update_email''), s1\<lparr>update_field := Some ''email''\<rparr>)
            else if py_in ''phone'' (lower p)
            then (Replied (lang_get E ''update_phone''), s1\<lparr>update_field := Some ''phone''\<rparr>)
            else (Replied (lang_get E ''update_request''), s1))
      else if pending_update s
      then
        (let s1 = s\<lparr>pending_update := False\<rparr>
         in case extract_candidate_info (json_loads E) (extraction_reply inp) p
                   (candidate_info s1) of
              (Some e, ci) \<Rightarrow> (Raised e, s1\<lparr>candidate_info := ci\<rparr>)
            | (None, ci) \<Rightarrow>
                (let s2 = s1\<lparr>candidate_info := apply_update (update_field s1) p ci\<rparr>;
                     s3 = save_candidate_to_db (db_up inp) s2
                 in case question_block E (technical_questions s3) (current_question_index s3) of
                      Inl e \<Rightarrow> (Raised e, s3)
                    | Inr block \<Rightarrow>
                        (Replied (lang_get E ''update_confirmed'' @ newline @ newline @ block),
                         s3\<lparr>update_field := None\<rparr>)))
      else
        (let s1 = s\<lparr>current_question_index := current_question_index s + 1\<rparr>
         in case py_len (technical_questions s1) of
              Inl e \<Rightarrow> (Raised e, s1)
            | Inr n \<Rightarrow>
                if current_question_index s1 < n
                then (case question_block E (technical_questions s1) (current_question_index s1) of
                        Inl e \<Rightarrow> (Raised e, s1)
                      | Inr block \<Rightarrow>
                          (Replied (lang_get E ''thank_you_answer'' @ newline @ newline @ block),
                           s1))
                else (Replied (generate_farewell E), s1\<lparr>phase := Completed\<rparr>)))"

text \<open>Lines 957 to 1116: a message has arrived.\<close>

definition handle_prompt :: "env \<Rightarrow> inputs \<Rightarrow> string \<Rightarrow> session \<Rightarrow> outcome \<times> session" where
  "handle_prompt E inp p s =
     (let s1 = save_message_to_db (db_up inp) ''user'' p
                 (s\<lparr>messages := messages s @ [(''user'', p)]\<rparr>);
          s2 = stage_answer p s1
      in if should_end_conversation p
         then
           (let farewell = generate_farewell E;
                s3 = save_message_to_db (db_up inp) ''assistant'' farewell
                       (s2\<lparr>messages := messages s2 @ [(''assistant'', farewell)]\<rparr>)
            in (Stopped farewell, s3\<lparr>phase := Completed\<rparr>))
         else if phase s2 = Greeting \<or> phase s2 = Info_gathering
         then info_branch E inp p s2
         else if phase s2 = Technical_questions
         then technical_branch E inp p s2
         else (Idle, s2))"

text \<open>One run of \<^verbatim>\<open>main\<close>; \<^verbatim>\<open>st.chat_input\<close> yields a message only when it is not empty.\<close>

definition run :: "env \<Rightarrow> inputs \<Rightarrow> session \<Rightarrow> outcome \<times> session" where
  "run E inp s =
     (let s1 = flush_technical_answer (db_up inp) (start_conversation E (db_up inp) s)
      in case prompt inp of
           None \<Rightarrow> (Idle, s1)
         | Some p \<Rightarrow> if p = [] then (Idle, s1) else handle_prompt E inp p s1)"

section \<open>Notions of the specification and sample values\<close>

text \<open>
  The reading of \<^verbatim>\<open>is_complete\<close> in the specification: every scalar field is non-null and
  both list fields are non-empty.
\<close>

definition spec_is_complete :: "candidate_info \<Rightarrow> bool" where
  "spec_is_complete ci =
     (full_name ci \<noteq> PNone \<and> email ci \<noteq> PNone \<and> phone ci \<noteq> PNone \<and>
      years_experience ci \<noteq> None \<and> current_location ci \<noteq> PNone \<and>
      desired_positions ci \<noteq> [] \<and> tech_stack ci \<noteq> [])"

text \<open>The declared type of the four text slots: \<^verbatim>\<open>Optional[str]\<close>.\<close>

fun optional_str :: "pyval \<Rightarrow> bool" where
  "optional_str PNone = True"
| "optional_str (PStr s) = True"
| "optional_str v = False"

definition declared_types :: "candidate_info \<Rightarrow> bool" where
  "declared_types ci =
     (optional_str (full_name ci) \<and> optional_str (email ci) \<and>
      optional_str (phone ci) \<and> optional_str (current_location ci))"

text \<open>A text slot is populated when it holds a string that is not empty.\<close>

definition populated :: "pyval \<Rightarrow> bool" where
  "populated v = (v \<noteq> PNone \<and> v \<noteq> PStr [])"

text \<open>A profile whose name is the empty string and whose other fields are filled in.\<close>

definition profile_blank_name :: candidate_info where
  "profile_blank_name =
     \<lparr>full_name = PStr [], email = PStr ''a@b.co'', phone = PStr ''9876543210'',
      years_experience = Some 0, desired_positions = [''tester''],
      current_location = PStr ''goa'', tech_stack = [''sql'']\<rparr>"

definition profile_zero_years :: candidate_info where
  "profile_zero_years = profile_blank_name\<lparr>full_name := PStr ''Helen''\<rparr>"

text \<open>
  A reply of the language model that lists the same position twice, in two spellings, and
  the value \<^verbatim>\<open>json.loads\<close> gives for it.
\<close>

definition reply_dup :: string where
  \<open>reply_dup = ''{"desired_positions": ["Tester", "tester"]}''\<close>

definition loads_dup :: "string \<Rightarrow> pyval option" where
  "loads_dup t =
     (if t = reply_dup
      then Some (PDict [(''desired_positions'', PList [PStr ''Tester'', PStr ''tester''])])
      else None)"

text \<open>A reply that offers other values for fields that are already set.\<close>

definition reply_other :: string where
  \<open>reply_other = ''{"full_name": "Bob", "email": "bob@x.org", "years_experience": 9}''\<close>

definition loads_other :: "string \<Rightarrow> pyval option" where
  "loads_other t =
     (if t = reply_other
      then Some (PDict [(''full_name'', PStr ''Bob''), (''email'', PStr ''bob@x.org''),
                        (''years_experience'', PInt 9)])
      else None)"

text \<open>Replies of the language model used below, and the values \<^verbatim>\<open>json.loads\<close> gives for them.\<close>

definition reply_array :: string where
  \<open>reply_array = ''["What is a join?", "What is an index?", "What is a view?"]''\<close>

definition parsed_array :: pyval where
  "parsed_array =
     PList [PStr ''What is a join?'', PStr ''What is an index?'', PStr ''What is a view?'']"

definition reply_no_questions :: string where
  \<open>reply_no_questions = ''{"questions": []}''\<close>

definition reply_profile :: string where
  \<open>reply_profile = ''{"full_name":"Helen","desired_positions":["tester"],"current_location":"Goa","tech_stack":["SQL"]}''\<close>

definition parsed_profile :: pyval where
  "parsed_profile =
     PDict [(''full_name'', PStr ''Helen''),
            (''desired_positions'', PList [PStr ''tester'']),
            (''current_location'', PStr ''Goa''), (''tech_stack'', PList [PStr ''SQL''])]"

definition reply_rust :: string where
  \<open>reply_rust = ''{"tech_stack":["Rust"]}''\<close>

definition reply_bad_stack :: string where
  \<open>reply_bad_stack = ''{"tech_stack":[5]}''\<close>

definition loads_demo :: "string \<Rightarrow> pyval option" where
  "loads_demo =
     map_of [(reply_array, parsed_array),
             (reply_no_questions, PDict [(''questions'', PList [])]),
             (reply_profile, parsed_profile),
             (reply_rust, PDict [(''tech_stack'', PList [PStr ''Rust''])]),
             (reply_bad_stack, PDict [(''tech_stack'', PList [PInt 5])])]"

text \<open>
  A language table with shortened English texts, and an environment in which
  \<^verbatim>\<open>str.format\<close> leaves the template as it is.
\<close>

definition english :: "(string \<times> string) list" where
  "english =
     [(''greeting'', ''Welcome aboard!''),
      (''farewell'', ''Thank you for your time today.''),
      (''question_format'', ''Question {current} of {total}:''),
      (''thank_you_answer'', ''Thank you for your answer!''),
      (''tech_questions_intro'', ''Hello {name}''),
      (''update_request'', ''What would you like to update?''),
      (''update_location'', ''Please provide your current location.''),
      (''update_email'', ''Please provide your updated email address.''),
      (''update_phone'', ''Please provide your updated phone number.''),
      (''update_confirmed'', ''I have updated your information.'')]"

definition env_demo :: env where
  "env_demo =
     \<lparr>json_loads = loads_demo, lang_table = map_of english,
      str_format = (\<lambda>template args. template), py_str = (\<lambda>v. [])\<rparr>"

definition db_empty :: database where
  "db_empty =
     \<lparr>candidate_row = None, fresh_id = 1, question_rows = [], answer_rows = [],
      log_rows = []\<rparr>"

text \<open>A run without a message (the page is loaded or refreshed), and a run with one.\<close>

definition page_load :: inputs where
  "page_load =
     \<lparr>prompt = None, extraction_reply = [], questions_reply = [],
      next_question_reply = ''Could you share your email address?'', db_up = True\<rparr>"

definition says :: "string \<Rightarrow> inputs" where
  "says p = page_load\<lparr>prompt := Some p\<rparr>"

text \<open>
  The message that completes the profile: the heuristics find the email address, the phone
  number and the years, the language model supplies the other fields.
\<close>

definition says_profile :: inputs where
  "says_profile =
     (says ''helen@x.org, 9876543210, 3 years'')\<lparr>extraction_reply := reply_profile\<rparr>"



text \<open>Several runs, one after the other; the session state is kept between them.\<close>

fun runs :: "env \<Rightarrow> inputs list \<Rightarrow> session \<Rightarrow> session" where
  "runs E [] s = s"
| "runs E (inp # inps) s = runs E inps (snd (run E inp s))"

text \<open>
  The states of a sample session: after the greeting; after the message that completes the
  profile (the language model returns no questions that \<^verbatim>\<open>extract_json\<close> finds, so the
  three fallback questions are used); and after the answer to the first question.
\<close>

definition session_greeted :: session where
  "session_greeted =
     (init_session_state db_empty)
       \<lparr>messages := [(''assistant'', ''Welcome aboard!'')], conversation_started := True\<rparr>"

definition profile_helen :: candidate_info where
  "profile_helen =
     \<lparr>full_name = PStr ''Helen'', email = PStr ''helen@x.org'', phone = PStr ''9876543210'',
      years_experience = Some 3, desired_positions = [''tester''],
      current_location = PStr ''Goa'', tech_stack = [''SQL'']\<rparr>"

definition questions_helen :: "pyval list" where
  "questions_helen = (case fallback_questions profile_helen of PList qs \<Rightarrow> qs | _ \<Rightarrow> [])"

definition question_text :: "nat \<Rightarrow> string" where
  "question_text i =
     ''**Question {current} of {total}:**'' @ newline @ fstr env_demo (questions_helen ! i)"

definition intro_text :: string where
  "intro_text = ''Hello {name}'' @ newline @ newline @ question_text 0"

definition session_first_question :: session where
  "session_first_question =
     session_greeted
       \<lparr>messages := [(''assistant'', ''Welcome aboard!''),
                     (''user'', ''helen@x.org, 9876543210, 3 years''),
                     (''assistant'', intro_text)],
        candidate_info := profile_helen,
        phase := Technical_questions,
        technical_questions := PList questions_helen,
        candidate_id := Some 1,
        store :=
          \<lparr>candidate_row = Some (1, profile_helen), fresh_id = 1,
           question_rows = zip [0..<3] questions_helen,
           answer_rows = [],
           log_rows = [(''assistant'', intro_text)]\<rparr>\<rparr>"

definition session_second_question :: session where
  "session_second_question =
     session_first_question
       \<lparr>messages := messages session_first_question @ [(''user'', ''A join combines rows'')],
        current_question_index := 1,
        last_technical_answer := Some ''A join combines rows'',
        store := (store session_first_question)
                   \<lparr>log_rows := log_rows (store session_first_question) @
                                  [(''user'', ''A join combines rows'')]\<rparr>\<rparr>"

text \<open>
  The state after the message that completes the profile when the language model answers
  the question prompt with \<^verbatim>\<open>{"questions": []}\<close>.
\<close>

definition session_no_questions :: session where
  "session_no_questions =
     session_greeted
       \<lparr>messages := [(''assistant'', ''Welcome aboard!''),
                     (''user'', ''helen@x.org, 9876543210, 3 years'')],
        candidate_info := profile_helen,
        phase := Technical_questions,
        technical_questions := PList [],
        candidate_id := Some 1,
        store := db_empty\<lparr>candidate_row := Some (1, profile_helen)\<rparr>\<rparr>"




text \<open>
  The sample session after a request to update the email address, and after a request to
  update the phone number.
\<close>

definition session_email_update :: session where
  "session_email_update =
     session_second_question
       \<lparr>messages := messages session_second_question @ [(''user'', ''please update my email'')],
        last_technical_answer := None,
        pending_update := True,
        update_field := Some ''email'',
        store := (store session_second_question)
                   \<lparr>answer_rows := [(0, ''A join combines rows'')],
                    log_rows := log_rows (store session_second_question) @
                                  [(''user'', ''please update my email'')]\<rparr>\<rparr>"

definition session_phone_update :: session where
  "session_phone_update =
     session_email_update
       \<lparr>messages := messages session_second_question @ [(''user'', ''I want to change my phone'')],
        update_field := Some ''phone'',
        store := (store session_email_update)
                   \<lparr>log_rows := log_rows (store session_second_question) @
                                  [(''user'', ''I want to change my phone'')]\<rparr>\<rparr>"


text \<open>
  In phase \<^verbatim>\<open>technical_questions\<close> the email address and the phone number are set.
\<close>

definition contact_fields_set :: "session \<Rightarrow> bool" where
  "contact_fields_set s =
     (phase s = Technical_questions \<longrightarrow>
        truthy (email (candidate_info s)) \<and> truthy (phone (candidate_info s)))"

section \<open>Properties\<close>

subsection \<open>Completeness of a profile\<close>

lemma truthy_optional_str: "optional_str v \<Longrightarrow> truthy v = populated v"
  by (cases v) (simp_all add: populated_def)

text \<open>
  C3 (counterexample). A profile whose \<^verbatim>\<open>full_name\<close> is the empty string has every scalar
  field non-null and both lists non-empty, yet \<^verbatim>\<open>is_complete()\<close> is false: the test is
  Python truthiness, and the empty string is falsy.
\<close>

theorem is_complete_blank_name_counterexample:
  "spec_is_complete profile_blank_name \<and> \<not> is_complete profile_blank_name"
  by (simp add: spec_is_complete_def is_complete_def profile_blank_name_def)

text \<open>
  C3 (amended). For a profile whose text slots hold strings or \<^verbatim>\<open>None\<close>, \<^verbatim>\<open>is_complete()\<close>
  is true if and only if every text field is non-null and not the empty string,
  \<^verbatim>\<open>years_experience\<close> is non-null (so \<open>0\<close> counts as populated) and both list fields are
  non-empty.
\<close>

theorem is_complete_iff:
  assumes "declared_types ci"
  shows "is_complete ci \<longleftrightarrow>
           populated (full_name ci) \<and> populated (email ci) \<and> populated (phone ci) \<and>
           years_experience ci \<noteq> None \<and> desired_positions ci \<noteq> [] \<and>
           populated (current_location ci) \<and> tech_stack ci \<noteq> []"
  using assms by (simp add: is_complete_def declared_types_def truthy_optional_str)

theorem is_complete_iff_witness:
  "declared_types profile_zero_years \<and> years_experience profile_zero_years = Some 0 \<and>
   is_complete profile_zero_years"
proof -
  have d: "declared_types profile_zero_years"
    by (simp add: declared_types_def profile_zero_years_def profile_blank_name_def)
  show ?thesis
    using d is_complete_iff [OF d]
    by (simp add: populated_def profile_zero_years_def profile_blank_name_def)
qed

subsection \<open>What an extraction pass may change\<close>

text \<open>Each heuristic touches one field, and only when that field is not set.\<close>

lemma extract_email_frame:
  "full_name (extract_email m ci) = full_name ci"
  "phone (extract_email m ci) = phone ci"
  "years_experience (extract_email m ci) = years_experience ci"
  "current_location (extract_email m ci) = current_location ci"
  "desired_positions (extract_email m ci) = desired_positions ci"
  "tech_stack (extract_email m ci) = tech_stack ci"
  "truthy (email ci) \<Longrightarrow> email (extract_email m ci) = email ci"
  by (simp_all add: extract_email_def split: option.splits)

lemma extract_phone_frame:
  "full_name (extract_phone m ci) = full_name ci"
  "email (extract_phone m ci) = email ci"
  "years_experience (extract_phone m ci) = years_experience ci"
  "current_location (extract_phone m ci) = current_location ci"
  "desired_positions (extract_phone m ci) = desired_positions ci"
  "tech_stack (extract_phone m ci) = tech_stack ci"
  "truthy (phone ci) \<Longrightarrow> phone (extract_phone m ci) = phone ci"
  by (simp_all add: extract_phone_def split: option.splits)

lemma extract_years_frame:
  "full_name (extract_years m ci) = full_name ci"
  "email (extract_years m ci) = email ci"
  "phone (extract_years m ci) = phone ci"
  "current_location (extract_years m ci) = current_location ci"
  "desired_positions (extract_years m ci) = desired_positions ci"
  "tech_stack (extract_years m ci) = tech_stack ci"
  "years_experience ci \<noteq> None \<Longrightarrow> years_experience (extract_years m ci) = years_experience ci"
  by (auto simp: extract_years_def split: option.splits)

lemma extract_name_frame:
  "email (extract_name m ci) = email ci"
  "phone (extract_name m ci) = phone ci"
  "years_experience (extract_name m ci) = years_experience ci"
  "current_location (extract_name m ci) = current_location ci"
  "desired_positions (extract_name m ci) = desired_positions ci"
  "tech_stack (extract_name m ci) = tech_stack ci"
  "truthy (full_name ci) \<Longrightarrow> full_name (extract_name m ci) = full_name ci"
  by (simp_all add: extract_name_def Let_def split: option.splits)

lemma extract_location_frame:
  "full_name (extract_location m ci) = full_name ci"
  "email (extract_location m ci) = email ci"
  "phone (extract_location m ci) = phone ci"
  "years_experience (extract_location m ci) = years_experience ci"
  "desired_positions (extract_location m ci) = desired_positions ci"
  "tech_stack (extract_location m ci) = tech_stack ci"
  "truthy (current_location ci) \<Longrightarrow> current_location (extract_location m ci) = current_location ci"
  by (simp_all add: extract_location_def Let_def split: option.splits)

lemmas heuristic_frames =
  extract_email_frame extract_phone_frame extract_years_frame extract_name_frame
  extract_location_frame

lemma heuristics_scalars:
  "truthy (full_name ci) \<Longrightarrow> full_name (heuristics m ci) = full_name ci"
  "truthy (email ci) \<Longrightarrow> email (heuristics m ci) = email ci"
  "truthy (phone ci) \<Longrightarrow> phone (heuristics m ci) = phone ci"
  "years_experience ci \<noteq> None \<Longrightarrow> years_experience (heuristics m ci) = years_experience ci"
  "truthy (current_location ci) \<Longrightarrow> current_location (heuristics m ci) = current_location ci"
  by (simp_all add: heuristics_def heuristic_frames)


lemma position_fallback_scalars:
  "full_name (position_fallback m ci) = full_name ci"
  "email (position_fallback m ci) = email ci"
  "phone (position_fallback m ci) = phone ci"
  "years_experience (position_fallback m ci) = years_experience ci"
  "current_location (position_fallback m ci) = current_location ci"
  by (simp_all add: position_fallback_def Let_def)


lemma merge_years_keeps:
  "merge_years new cur = (e, y) \<Longrightarrow> cur \<noteq> None \<Longrightarrow> y = cur"
  by (simp add: merge_years_def)

lemma merge_years_error:
  "merge_years new cur = (Some e, y) \<Longrightarrow> y = cur"
  by (auto simp: merge_years_def split: if_splits sum.splits)

lemma merge_text_keeps: "truthy cur \<Longrightarrow> merge_text new cur = cur"
  by (simp add: merge_text_def)

lemma merge_extracted_scalars:
  assumes "merge_extracted x ci = (e, ci')"
  shows "(truthy (full_name ci) \<longrightarrow> full_name ci' = full_name ci) \<and>
         (truthy (email ci) \<longrightarrow> email ci' = email ci) \<and>
         (truthy (phone ci) \<longrightarrow> phone ci' = phone ci) \<and>
         (years_experience ci \<noteq> None \<longrightarrow> years_experience ci' = years_experience ci) \<and>
         (truthy (current_location ci) \<longrightarrow> current_location ci' = current_location ci)"
proof (cases "truthy x")
  case False
  with assms show ?thesis by (simp add: merge_extracted_def)
next
  case True
  show ?thesis
  proof (cases x)
    case (PDict d)
    obtain ey y where my: "merge_years (dict_get d ''years_experience'') (years_experience ci) = (ey, y)"
      by (cases "merge_years (dict_get d ''years_experience'') (years_experience ci)")
    obtain ep ps where mp: "merge_list (dict_get d ''desired_positions'') (desired_positions ci) = (ep, ps)"
      by (cases "merge_list (dict_get d ''desired_positions'') (desired_positions ci)")
    obtain et ts where mt: "merge_list (dict_get d ''tech_stack'') (tech_stack ci) = (et, ts)"
      by (cases "merge_list (dict_get d ''tech_stack'') (tech_stack ci)")
    have yk: "years_experience ci \<noteq> None \<Longrightarrow> y = years_experience ci"
      using merge_years_keeps [OF my] by simp
    from assms True PDict my mp mt yk show ?thesis
      by (cases ey; cases ep) (auto simp: merge_extracted_def Let_def merge_text_keeps)
  qed (use assms True in \<open>auto simp: merge_extracted_def\<close>)
qed

lemma extract_candidate_info_scalars:
  "(truthy (full_name ci) \<longrightarrow>
      full_name (snd (extract_candidate_info loads response message ci)) = full_name ci) \<and>
   (truthy (email ci) \<longrightarrow>
      email (snd (extract_candidate_info loads response message ci)) = email ci) \<and>
   (truthy (phone ci) \<longrightarrow>
      phone (snd (extract_candidate_info loads response message ci)) = phone ci) \<and>
   (years_experience ci \<noteq> None \<longrightarrow>
      years_experience (snd (extract_candidate_info loads response message ci)) =
        years_experience ci) \<and>
   (truthy (current_location ci) \<longrightarrow>
      current_location (snd (extract_candidate_info loads response message ci)) =
        current_location ci)"
proof -
  obtain e ci1 where
    m: "merge_extracted (extract_json loads response) (heuristics message ci) = (e, ci1)"
    by (cases "merge_extracted (extract_json loads response) (heuristics message ci)")
  have s: "snd (extract_candidate_info loads response message ci) =
             (case e of None \<Rightarrow> position_fallback message ci1 | Some x \<Rightarrow> ci1)"
    using m by (simp add: extract_candidate_info_def split: option.splits)
  from merge_extracted_scalars [OF m] show ?thesis
    by (cases e) (simp_all add: s position_fallback_scalars heuristics_scalars)
qed






text \<open>
  C1. For every message, every reply of the language model and every current profile, an
  extraction pass (the heuristics, the merge of the model's reply and the position
  fallback) leaves every scalar field that is already set as it is: a text field that is
  truthy (non-null and non-empty) and a \<^verbatim>\<open>years_experience\<close> that is not \<^verbatim>\<open>None\<close> keep their
  values, also when the pass ends in an exception. Only unset scalar fields are assigned.
\<close>

theorem extract_first_write_wins:
  "(truthy (full_name ci) \<longrightarrow>
      full_name (snd (extract_candidate_info loads response message ci)) = full_name ci) \<and>
   (truthy (email ci) \<longrightarrow>
      email (snd (extract_candidate_info loads response message ci)) = email ci) \<and>
   (truthy (phone ci) \<longrightarrow>
      phone (snd (extract_candidate_info loads response message ci)) = phone ci) \<and>
   (years_experience ci \<noteq> None \<longrightarrow>
      years_experience (snd (extract_candidate_info loads response message ci)) =
        years_experience ci) \<and>
   (truthy (current_location ci) \<longrightarrow>
      current_location (snd (extract_candidate_info loads response message ci)) =
        current_location ci)"
  by (rule extract_candidate_info_scalars)

theorem extract_first_write_wins_witness:
  "truthy (full_name profile_zero_years) \<and> truthy (email profile_zero_years) \<and>
   truthy (phone profile_zero_years) \<and> years_experience profile_zero_years \<noteq> None \<and>
   truthy (current_location profile_zero_years) \<and>
   full_name (snd (extract_candidate_info loads_other reply_other
                     ''Bob, 9 years, bob@x.org, +91 98765 43210'' profile_zero_years)) =
     PStr ''Helen'' \<and>
   email (snd (extract_candidate_info loads_other reply_other
                 ''Bob, 9 years, bob@x.org, +91 98765 43210'' profile_zero_years)) =
     PStr ''a@b.co'' \<and>
   phone (snd (extract_candidate_info loads_other reply_other
                 ''Bob, 9 years, bob@x.org, +91 98765 43210'' profile_zero_years)) =
     PStr ''9876543210'' \<and>
   years_experience (snd (extract_candidate_info loads_other reply_other
                 ''Bob, 9 years, bob@x.org, +91 98765 43210'' profile_zero_years)) =
     Some 0 \<and>
   current_location (snd (extract_candidate_info loads_other reply_other
                 ''Bob, 9 years, bob@x.org, +91 98765 43210'' profile_zero_years)) =
     PStr ''goa''"
  using extract_first_write_wins [of profile_zero_years loads_other reply_other
          "''Bob, 9 years, bob@x.org, +91 98765 43210''"]
  by (simp add: profile_zero_years_def profile_blank_name_def)

text \<open>
  C2 (the failing input, evaluated). On the message \<^verbatim>\<open>hi\<close> and an empty profile, when the
  language model replies \<^verbatim>\<open>{"desired_positions": ["Tester", "tester"]}\<close>, the pass appends
  both entries, which are equal under case-insensitive comparison: the list of lower-case
  forms that guards the append is computed once, before the loop, and does not see the
  entries appended by the loop itself.
\<close>

theorem extract_appends_case_duplicates:
  "desired_positions
     (snd (extract_candidate_info loads_dup reply_dup ''hi'' CandidateInfo)) =
     [''Tester'', ''tester''] \<and>
   lower ''Tester'' = lower ''tester''"
  by code_simp

text \<open>
  C8 (the failing input, evaluated). On the message \<^verbatim>\<open>software tester\<close> and an empty
  profile, the heuristics store the message as \<^verbatim>\<open>full_name\<close>: the name test rejects a
  message only when the whole message is a job-role keyword. Whatever the language model
  replies, \<^verbatim>\<open>full_name\<close> is \<^verbatim>\<open>software tester\<close> after the pass, and the position fallback,
  which runs only while no name is set, appends nothing.
\<close>

theorem software_tester_becomes_name:
  "heuristics ''software tester'' CandidateInfo =
     CandidateInfo\<lparr>full_name := PStr ''software tester''\<rparr> \<and>
   position_fallback ''software tester'' (heuristics ''software tester'' CandidateInfo) =
     heuristics ''software tester'' CandidateInfo \<and>
   full_name (snd (extract_candidate_info loads response ''software tester'' CandidateInfo)) =
     PStr ''software tester''"
proof -
  have h: "heuristics ''software tester'' CandidateInfo =
             CandidateInfo\<lparr>full_name := PStr ''software tester''\<rparr>"
    by code_simp
  have f: "position_fallback ''software tester'' (heuristics ''software tester'' CandidateInfo) =
             heuristics ''software tester'' CandidateInfo"
    by (simp add: h position_fallback_def)
  obtain e ci1 where
    m: "merge_extracted (extract_json loads response)
          (heuristics ''software tester'' CandidateInfo) = (e, ci1)"
    by (cases "merge_extracted (extract_json loads response)
                 (heuristics ''software tester'' CandidateInfo)")
  have "full_name ci1 = PStr ''software tester''"
    using merge_extracted_scalars [OF m] by (simp add: h)
  then have "full_name (snd (extract_candidate_info loads response ''software tester''
                              CandidateInfo)) = PStr ''software tester''"
    using m by (cases e) (simp_all add: extract_candidate_info_def position_fallback_scalars)
  with h f show ?thesis by simp
qed

subsection \<open>The technical questions\<close>

text \<open>
  C7 (the failing input, evaluated). When the language model answers with a JSON array of
  questions, as the prompt asks it to, \<^verbatim>\<open>generate_technical_questions\<close> returns the three
  fallback questions and not the parsed list: \<^verbatim>\<open>extract_json\<close> only looks for a part of
  the text between braces, so the test \<^verbatim>\<open>isinstance(questions, list)\<close> never sees the
  array. When the model answers \<^verbatim>\<open>{"questions": []}\<close>, the result is the empty list.
\<close>

theorem generate_technical_questions_ignores_array:
  "loads_demo reply_array = Some parsed_array \<and>
   generate_technical_questions loads reply_array ci = fallback_questions ci \<and>
   fallback_questions ci \<noteq> parsed_array \<and>
   generate_technical_questions loads_demo reply_no_questions ci = PList []"
proof -
  have a: "loads_demo reply_array = Some parsed_array"
    by code_simp
  have "re_search json_pattern reply_array = None"
    by code_simp
  then have b: "generate_technical_questions loads reply_array ci = fallback_questions ci"
    by (simp add: generate_technical_questions_def extract_json_def)
  have c: "fallback_questions ci \<noteq> parsed_array"
    by (simp add: fallback_questions_def parsed_array_def)
  have "extract_json loads_demo reply_no_questions = PDict [(''questions'', PList [])]"
    by code_simp
  then have d: "generate_technical_questions loads_demo reply_no_questions ci = PList []"
    by (simp add: generate_technical_questions_def)
  from a b c d show ?thesis by simp
qed

text \<open>The runs that lead to the sample states.\<close>

lemma run_greeting:
  "run env_demo page_load (init_session_state db_empty) = (Idle, session_greeted)"
  by code_simp

lemma run_profile:
  "run env_demo says_profile session_greeted = (Replied intro_text, session_first_question)"
  by code_simp

lemma run_first_answer:
  "run env_demo (says ''A join combines rows'') session_first_question =
     (Replied (''Thank you for your answer!'' @ newline @ newline @ question_text 1),
      session_second_question)"
  by code_simp

lemma runs_second_question:
  "runs env_demo [page_load, says_profile, says ''A join combines rows'']
     (init_session_state db_empty) = session_second_question"
  by (simp add: run_greeting run_profile run_first_answer)

text \<open>
  C4 (the failing input, evaluated). The language model answers the question prompt with
  \<^verbatim>\<open>{"questions": []}\<close>. The run that completes the profile sets the phase to
  \<^verbatim>\<open>technical_questions\<close>, stores the empty list and then fails with \<^verbatim>\<open>IndexError\<close> on
  \<^verbatim>\<open>technical_questions[0]\<close>: the index (0) equals the question count (0) while the phase
  is \<^verbatim>\<open>technical_questions\<close>. On the next message the index becomes 1 and exceeds the
  count.
\<close>

theorem empty_question_list_index_exceeds_count:
  "run env_demo page_load (init_session_state db_empty) = (Idle, session_greeted) \<and>
   run env_demo (says_profile\<lparr>questions_reply := reply_no_questions\<rparr>) session_greeted =
     (Raised IndexError, session_no_questions) \<and>
   phase session_no_questions = Technical_questions \<and>
   technical_questions session_no_questions = PList [] \<and>
   current_question_index session_no_questions = 0 \<and>
   current_question_index (snd (run env_demo (says ''hello'') session_no_questions)) = 1 \<and>
   py_len (technical_questions (snd (run env_demo (says ''hello'') session_no_questions))) =
     Inr 0"
proof -
  have a: "run env_demo page_load (init_session_state db_empty) = (Idle, session_greeted)"
    by code_simp
  have b: "run env_demo (says_profile\<lparr>questions_reply := reply_no_questions\<rparr>) session_greeted =
             (Raised IndexError, session_no_questions)"
    by code_simp
  have c: "phase session_no_questions = Technical_questions \<and>
           technical_questions session_no_questions = PList [] \<and>
           current_question_index session_no_questions = 0"
    by code_simp
  have d: "current_question_index (snd (run env_demo (says ''hello'') session_no_questions)) = 1"
    by code_simp
  have e: "py_len (technical_questions (snd (run env_demo (says ''hello'') session_no_questions))) =
             Inr 0"
    by code_simp
  from a b c d e show ?thesis by simp
qed

subsection \<open>End keywords\<close>

text \<open>
  C6 (the failing input, evaluated). The profile is complete, the first technical question
  has been answered and the second one is pending (index 1). The message \<^verbatim>\<open>bye\<close> ends the
  conversation with the farewell and the phase \<^verbatim>\<open>completed\<close>, but the block of the phase
  \<^verbatim>\<open>technical_questions\<close> that stages the message as an answer runs before the test for
  end keywords: \<^verbatim>\<open>last_technical_answer\<close> is \<^verbatim>\<open>bye\<close>, and the next run of the script writes
  it to the store as a further answer to question 0.
\<close>

theorem end_keyword_is_staged_as_answer:
  "runs env_demo [page_load, says_profile, says ''A join combines rows'']
     (init_session_state db_empty) = session_second_question \<and>
   current_question_index session_second_question = 1 \<and>
   last_technical_answer session_second_question = Some ''A join combines rows'' \<and>
   fst (run env_demo (says ''bye'') session_second_question) =
     Stopped ''Thank you for your time today.'' \<and>
   phase (snd (run env_demo (says ''bye'') session_second_question)) = Completed \<and>
   last_technical_answer (snd (run env_demo (says ''bye'') session_second_question)) =
     Some ''bye'' \<and>
   answer_rows (store (runs env_demo [says ''bye'', page_load] session_second_question)) =
     [(0, ''A join combines rows''), (0, ''bye'')]"
proof -
  have a: "runs env_demo [page_load, says_profile, says ''A join combines rows'']
             (init_session_state db_empty) = session_second_question"
    by (simp add: run_greeting run_profile run_first_answer)
  have b: "current_question_index session_second_question = 1 \<and>
           last_technical_answer session_second_question = Some ''A join combines rows''"
    by code_simp
  have c: "fst (run env_demo (says ''bye'') session_second_question) =
             Stopped ''Thank you for your time today.''"
    by code_simp
  have d: "phase (snd (run env_demo (says ''bye'') session_second_question)) = Completed"
    by code_simp
  have e: "last_technical_answer (snd (run env_demo (says ''bye'') session_second_question)) =
             Some ''bye''"
    by code_simp
  have f: "answer_rows (store (runs env_demo [says ''bye'', page_load] session_second_question)) =
             [(0, ''A join combines rows''), (0, ''bye'')]"
    by code_simp
  from a b c d e f show ?thesis by simp
qed

subsection \<open>The transcript in the store\<close>

text \<open>
  C9 (the failing input, evaluated). A fresh session: the first run shows the greeting,
  the second receives the message \<^verbatim>\<open>Helen\<close>. \<^verbatim>\<open>save_message_to_db\<close> writes nothing while
  \<^verbatim>\<open>candidate_id\<close> is \<^verbatim>\<open>None\<close>, and the id is set only by the first \<^verbatim>\<open>save_candidate_to_db\<close>,
  after the user message has been handled. The chat holds three messages; the transcript
  in the store holds the last one only.
\<close>

theorem greeting_and_first_message_not_logged:
  "run env_demo page_load (init_session_state db_empty) = (Idle, session_greeted) \<and>
   messages session_greeted = [(''assistant'', ''Welcome aboard!'')] \<and>
   log_rows (store session_greeted) = [] \<and>
   messages (snd (run env_demo (says ''Helen'') session_greeted)) =
     [(''assistant'', ''Welcome aboard!''), (''user'', ''Helen''),
      (''assistant'', ''Could you share your email address?'')] \<and>
   log_rows (store (snd (run env_demo (says ''Helen'') session_greeted))) =
     [(''assistant'', ''Could you share your email address?'')]"
proof -
  have a: "run env_demo page_load (init_session_state db_empty) = (Idle, session_greeted)"
    by code_simp
  have b: "messages session_greeted = [(''assistant'', ''Welcome aboard!'')] \<and>
           log_rows (store session_greeted) = []"
    by code_simp
  have c: "snd (run env_demo (says ''Helen'') session_greeted) =
             session_greeted
               \<lparr>messages := [(''assistant'', ''Welcome aboard!''), (''user'', ''Helen''),
                             (''assistant'', ''Could you share your email address?'')],
                candidate_info := CandidateInfo\<lparr>full_name := PStr ''Helen''\<rparr>,
                phase := Info_gathering,
                candidate_id := Some 1,
                store := db_empty
                  \<lparr>candidate_row := Some (1, CandidateInfo\<lparr>full_name := PStr ''Helen''\<rparr>),
                   log_rows := [(''assistant'', ''Could you share your email address?'')]\<rparr>\<rparr>"
    by code_simp
  from a b show ?thesis by (simp add: c)
qed

subsection \<open>Updates during the technical questions\<close>

lemma save_message_to_db_frame:
  "messages (save_message_to_db up role content s) = messages s"
  "candidate_info (save_message_to_db up role content s) = candidate_info s"
  "phase (save_message_to_db up role content s) = phase s"
  "technical_questions (save_message_to_db up role content s) = technical_questions s"
  "current_question_index (save_message_to_db up role content s) = current_question_index s"
  "conversation_started (save_message_to_db up role content s) = conversation_started s"
  "candidate_id (save_message_to_db up role content s) = candidate_id s"
  "last_technical_answer (save_message_to_db up role content s) = last_technical_answer s"
  "pending_update (save_message_to_db up role content s) = pending_update s"
  "update_field (save_message_to_db up role content s) = update_field s"
  "answer_rows (store (save_message_to_db up role content s)) = answer_rows (store s)"
  "has_candidate_id (save_message_to_db up role content s) = has_candidate_id s"
  by (simp_all add: save_message_to_db_def save_conversation_log_def has_candidate_id_def)

lemma start_conversation_frame:
  "candidate_info (start_conversation E up s) = candidate_info s"
  "phase (start_conversation E up s) = phase s"
  "technical_questions (start_conversation E up s) = technical_questions s"
  "current_question_index (start_conversation E up s) = current_question_index s"
  "candidate_id (start_conversation E up s) = candidate_id s"
  "last_technical_answer (start_conversation E up s) = last_technical_answer s"
  "pending_update (start_conversation E up s) = pending_update s"
  "update_field (start_conversation E up s) = update_field s"
  "answer_rows (store (start_conversation E up s)) = answer_rows (store s)"
  "has_candidate_id (start_conversation E up s) = has_candidate_id s"
  by (simp_all add: start_conversation_def save_message_to_db_frame has_candidate_id_def)

lemma flush_technical_answer_frame:
  "candidate_info (flush_technical_answer up s) = candidate_info s"
  "phase (flush_technical_answer up s) = phase s"
  "technical_questions (flush_technical_answer up s) = technical_questions s"
  "current_question_index (flush_technical_answer up s) = current_question_index s"
  "candidate_id (flush_technical_answer up s) = candidate_id s"
  "pending_update (flush_technical_answer up s) = pending_update s"
  "update_field (flush_technical_answer up s) = update_field s"
  "has_candidate_id (flush_technical_answer up s) = has_candidate_id s"
  by (simp_all add: flush_technical_answer_def has_candidate_id_def split: option.splits)


lemma stage_answer_frame:
  "candidate_info (stage_answer p s) = candidate_info s"
  "phase (stage_answer p s) = phase s"
  "technical_questions (stage_answer p s) = technical_questions s"
  "current_question_index (stage_answer p s) = current_question_index s"
  "candidate_id (stage_answer p s) = candidate_id s"
  "pending_update (stage_answer p s) = pending_update s"
  "update_field (stage_answer p s) = update_field s"
  "store (stage_answer p s) = store s"
  "messages (stage_answer p s) = messages s"
  by (simp_all add: stage_answer_def)


lemma save_candidate_to_db_frame:
  "candidate_info (save_candidate_to_db up s) = candidate_info s"
  "phase (save_candidate_to_db up s) = phase s"
  "technical_questions (save_candidate_to_db up s) = technical_questions s"
  "current_question_index (save_candidate_to_db up s) = current_question_index s"
  "last_technical_answer (save_candidate_to_db up s) = last_technical_answer s"
  "pending_update (save_candidate_to_db up s) = pending_update s"
  "update_field (save_candidate_to_db up s) = update_field s"
  "answer_rows (store (save_candidate_to_db up s)) = answer_rows (store s)"
  by (simp_all add: save_candidate_to_db_def create_or_update_candidate_def Let_def
        split: option.splits)

lemma run_with_prompt:
  "prompt inp = Some p \<Longrightarrow> p \<noteq> [] \<Longrightarrow>
     run E inp s =
       handle_prompt E inp p
         (flush_technical_answer (db_up inp) (start_conversation E (db_up inp) s))"
  by (simp add: run_def)

lemma run_without_prompt:
  "prompt inp = None \<or> prompt inp = Some [] \<Longrightarrow>
     run E inp s =
       (Idle, flush_technical_answer (db_up inp) (start_conversation E (db_up inp) s))"
  by (auto simp: run_def)

lemma py_in_Nil: "k \<noteq> [] \<Longrightarrow> \<not> py_in k []"
  by simp







text \<open>The start of a run: the greeting and the write of the staged answer.\<close>

lemma prelude_frame:
  "candidate_info (flush_technical_answer up (start_conversation E up s)) = candidate_info s"
  "phase (flush_technical_answer up (start_conversation E up s)) = phase s"
  "technical_questions (flush_technical_answer up (start_conversation E up s)) =
     technical_questions s"
  "current_question_index (flush_technical_answer up (start_conversation E up s)) =
     current_question_index s"
  "pending_update (flush_technical_answer up (start_conversation E up s)) = pending_update s"
  "update_field (flush_technical_answer up (start_conversation E up s)) = update_field s"
  by (simp_all add: flush_technical_answer_frame start_conversation_frame)






lemma run_email_request:
  "run env_demo (says ''please update my email'') session_second_question =
     (Replied ''Please provide your updated email address.'', session_email_update)"
  by code_simp

lemma run_phone_request:
  "run env_demo (says ''I want to change my phone'') session_second_question =
     (Replied ''Please provide your updated phone number.'', session_phone_update)"
  by code_simp







subsection \<open>Further properties of a pass and of a run\<close>

text \<open>
  A message with an end keyword, in any phase: the run stops with the farewell and the
  phase \<^verbatim>\<open>completed\<close>; the profile, the question index, the question list and the update
  sub-mode are as before.
\<close>

lemma end_keyword_stops:
  assumes "prompt inp = Some p" "should_end_conversation p"
  shows "fst (run E inp s) = Stopped (generate_farewell E)"
    and "phase (snd (run E inp s)) = Completed"
    and "candidate_info (snd (run E inp s)) = candidate_info s"
    and "current_question_index (snd (run E inp s)) = current_question_index s"
    and "technical_questions (snd (run E inp s)) = technical_questions s"
    and "pending_update (snd (run E inp s)) = pending_update s"
    and "update_field (snd (run E inp s)) = update_field s"
proof -
  have ne: "p \<noteq> []"
    using assms(2) by (auto simp: should_end_conversation_def end_keywords_def lower_def)
  let ?P = "flush_technical_answer (db_up inp) (start_conversation E (db_up inp) s)"
  have r: "run E inp s = handle_prompt E inp p ?P"
    using assms ne by (simp add: run_with_prompt)
  show "fst (run E inp s) = Stopped (generate_farewell E)"
    and "phase (snd (run E inp s)) = Completed"
    and "candidate_info (snd (run E inp s)) = candidate_info s"
    and "current_question_index (snd (run E inp s)) = current_question_index s"
    and "technical_questions (snd (run E inp s)) = technical_questions s"
    and "pending_update (snd (run E inp s)) = pending_update s"
    and "update_field (snd (run E inp s)) = update_field s"
    using assms(2)
    by (simp_all add: r handle_prompt_def Let_def save_message_to_db_frame stage_answer_frame
          prelude_frame)
qed

text \<open>
  An answer to a pending question: in phase \<^verbatim>\<open>technical_questions\<close>, with no update pending,
  a question list in which the question with the current index exists, and a message that
  is neither an update request nor an end-keyword message, the index advances by exactly
  one, does not exceed the number of questions, and reaches it exactly when the phase
  becomes \<^verbatim>\<open>completed\<close> in the same run.
\<close>

lemma answer_turn_advances_index:
  assumes "phase s = Technical_questions" "\<not> pending_update s"
      and "prompt inp = Some p" "p \<noteq> []"
      and "\<not> should_end_conversation p" "\<not> is_update_request p"
      and "technical_questions s = PList qs" "current_question_index s < length qs"
  shows "current_question_index (snd (run E inp s)) = current_question_index s + 1"
    and "current_question_index (snd (run E inp s)) \<le> length qs"
    and "current_question_index (snd (run E inp s)) = length qs \<longleftrightarrow>
           phase (snd (run E inp s)) = Completed"
    and "current_question_index (snd (run E inp s)) < length qs \<longleftrightarrow>
           phase (snd (run E inp s)) = Technical_questions"
    and "technical_questions (snd (run E inp s)) = PList qs"
proof -
  let ?P = "flush_technical_answer (db_up inp) (start_conversation E (db_up inp) s)"
  let ?s1 = "save_message_to_db (db_up inp) ''user'' p (?P\<lparr>messages := messages ?P @ [(''user'', p)]\<rparr>)"
  let ?s2 = "stage_answer p ?s1"
  have r: "run E inp s = technical_branch E inp p ?s2"
    using assms
    by (simp add: run_with_prompt handle_prompt_def Let_def stage_answer_frame
          save_message_to_db_frame prelude_frame)
  have f: "\<not> pending_update ?s2" "technical_questions ?s2 = PList qs"
    "current_question_index ?s2 = current_question_index s" "phase ?s2 = Technical_questions"
    using assms by (simp_all add: stage_answer_frame save_message_to_db_frame prelude_frame)
  have nr: "\<not> (wants_to_update p \<and> mentions_info p)"
    using assms(6) by (simp add: is_update_request_def)
  show "current_question_index (snd (run E inp s)) = current_question_index s + 1"
    and "current_question_index (snd (run E inp s)) \<le> length qs"
    and "current_question_index (snd (run E inp s)) = length qs \<longleftrightarrow>
           phase (snd (run E inp s)) = Completed"
    and "current_question_index (snd (run E inp s)) < length qs \<longleftrightarrow>
           phase (snd (run E inp s)) = Technical_questions"
    and "technical_questions (snd (run E inp s)) = PList qs"
    using assms(8) nr f
    by (auto simp: r technical_branch_def Let_def question_block_def split: sum.splits)
qed

text \<open>
  The email address and the phone number stay set during the technical questions. The
  phase is entered only with a complete profile; afterwards the two fields are assigned
  only by the update sub-mode, which stores a match of the email pattern (never empty) or
  a match of the phone pattern of at least 10 characters. Hence in every state of phase
  \<^verbatim>\<open>technical_questions\<close> that a session reaches from its initial state, both fields hold
  a value.
\<close>

lemma first_some_map:
  "first_some (map f xs) = Some y \<Longrightarrow> \<exists>x\<in>set xs. f x = Some y"
proof (induction xs)
  case Nil
  then show ?case by simp
next
  case (Cons x xs)
  then show ?case by (cases "f x") auto
qed

lemma match_atoms_length:
  "match_atoms pat prev s = Some ns \<Longrightarrow> sum_list ns \<le> length s"
proof (induction pat prev s arbitrary: ns rule: match_atoms.induct)
  case (1 prev s)
  then show ?case by simp
next
  case (2 p lo hi as prev s)
  let ?m = "length (takeWhile p s)"
  let ?n = "case hi of None \<Rightarrow> ?m | Some h \<Rightarrow> min h ?m"
  from "2.prems" obtain k where
    k: "k \<in> set (rev [lo..<Suc ?n])"
       "map_option ((#) k) (match_atoms as (step_prev prev (take k s)) (drop k s)) = Some ns"
    by (auto simp: Let_def dest!: first_some_map)
  then obtain ns' where ns': "match_atoms as (step_prev prev (take k s)) (drop k s) = Some ns'"
    "ns = k # ns'"
    by auto
  have "?n \<le> ?m" by (cases hi) simp_all
  moreover have "?m \<le> length s" by (rule length_takeWhile_le)
  ultimately have kl: "k \<le> length s" using k(1) by auto
  from "2.IH" [OF refl refl k(1) ns'(1)] have "sum_list ns' \<le> length s - k" by simp
  with kl ns'(2) show ?case by simp
next
  case (3 ws as prev s)
  from "3.prems" obtain w where
    w: "w \<in> set ws" "prefix w s"
       "map_option ((#) (length w)) (match_atoms as (step_prev prev w) (drop (length w) s)) = Some ns"
    by (auto dest!: first_some_map split: if_splits)
  then obtain ns' where ns': "match_atoms as (step_prev prev w) (drop (length w) s) = Some ns'"
    "ns = length w # ns'"
    by auto
  have wl: "length w \<le> length s" using w(2) by (rule prefix_length_le)
  from "3.IH" [OF w(1) w(2) ns'(1)] have "sum_list ns' \<le> length s - length w" by simp
  with wl ns'(2) show ?case by simp
next
  case (4 as prev s)
  then show ?case by (auto split: if_splits)
next
  case (5 as prev s)
  then show ?case by (auto split: if_splits)
next
  case (6 as prev s)
  then show ?case by (auto split: if_splits)
qed

lemma search_from_match:
  "search_from pat prev s i = Some (j, ns) \<Longrightarrow>
     \<exists>k prev'. j = i + k \<and> k \<le> length s \<and> match_atoms pat prev' (drop k s) = Some ns"
proof (induction pat prev s i rule: search_from.induct)
  case (1 pat prev i)
  then show ?case by auto
next
  case (2 pat prev c cs i)
  show ?case
  proof (cases "match_atoms pat prev (c # cs)")
    case None
    with "2.prems" have "search_from pat (Some c) cs (Suc i) = Some (j, ns)" by simp
    from "2.IH" [OF None this] obtain k prev' where
      "j = Suc i + k" "k \<le> length cs" "match_atoms pat prev' (drop k cs) = Some ns"
      by auto
    then show ?thesis by (intro exI [of _ "Suc k"] exI [of _ prev']) simp
  next
    case (Some a)
    with "2.prems" show ?thesis by (intro exI [of _ 0] exI [of _ prev]) simp
  qed
qed

lemma email_match_nonempty:
  assumes "match_atoms email_pattern prev s = Some ns"
  shows "0 < sum_list ns"
proof -
  from assms obtain ns1 where
    a: "match_atoms (tl email_pattern) prev s = Some ns1" "ns = 0 # ns1"
    by (auto simp: email_pattern_def split: if_splits)
  then obtain k ns2 where "ns1 = k # ns2" "1 \<le> k"
    by (auto simp: email_pattern_def Let_def dest!: first_some_map)
  with a show ?thesis by simp
qed

lemma email_group_nonempty:
  assumes "re_search email_pattern p = Some m"
  shows "group p m \<noteq> []"
proof -
  obtain j ns where m: "m = (j, ns)" by (cases m)
  from assms m search_from_match [of email_pattern None p 0 j ns] obtain prev' where
    k: "j \<le> length p" "match_atoms email_pattern prev' (drop j p) = Some ns"
    by (auto simp: re_search_def)
  from email_match_nonempty [OF k(2)] match_atoms_length [OF k(2)]
  have l: "length (group p m) = sum_list ns" and pos: "0 < sum_list ns"
    by (simp_all add: group_def m)
  have "0 < length (group p m)"
    unfolding l by (rule pos)
  then show ?thesis by simp
qed


lemma apply_update_keeps_set:
  assumes "truthy (email ci)" "truthy (phone ci)"
  shows "truthy (email (apply_update field p ci)) \<and> truthy (phone (apply_update field p ci))"
  using assms
  by (auto simp: apply_update_def email_group_nonempty split: option.splits)

lemma is_complete_contact:
  "is_complete ci \<Longrightarrow> truthy (email ci) \<and> truthy (phone ci)"
  by (simp add: is_complete_def)

lemma reply_frame:
  "phase (snd (reply up response s)) = phase s"
  "candidate_info (snd (reply up response s)) = candidate_info s"
  by (simp_all add: reply_def save_message_to_db_frame)

lemma info_branch_contact:
  assumes "phase s \<noteq> Technical_questions"
  shows "contact_fields_set (snd (info_branch E inp p s))"
proof -
  obtain e ci where
    x: "extract_candidate_info (json_loads E) (extraction_reply inp) p (candidate_info s) = (e, ci)"
    by (cases "extract_candidate_info (json_loads E) (extraction_reply inp) p (candidate_info s)")
  show ?thesis
  proof (cases e)
    case (Some err)
    with x assms show ?thesis by (simp add: info_branch_def contact_fields_set_def)
  next
    case None
    let ?s1 = "save_candidate_to_db (db_up inp) (s\<lparr>candidate_info := ci\<rparr>)"
    have c1: "candidate_info ?s1 = ci" "phase ?s1 = phase s"
      by (simp_all add: save_candidate_to_db_frame)
    show ?thesis
    proof (cases "is_complete ci")
      case True
      then have "truthy (email ci) \<and> truthy (phone ci)" by (rule is_complete_contact)
      with x None True c1 show ?thesis
        by (auto simp: info_branch_def Let_def contact_fields_set_def reply_frame
              split: sum.splits option.splits)
    next
      case False
      with x None c1 assms show ?thesis
        by (auto simp: info_branch_def Let_def contact_fields_set_def reply_frame
              split: option.splits)
    qed
  qed
qed

lemma technical_branch_contact:
  assumes "contact_fields_set s" "phase s = Technical_questions"
  shows "contact_fields_set (snd (technical_branch E inp p s))"
proof -
  from assms have set: "truthy (email (candidate_info s))" "truthy (phone (candidate_info s))"
    by (simp_all add: contact_fields_set_def)
  obtain e ci where
    x: "extract_candidate_info (json_loads E) (extraction_reply inp) p (candidate_info s) = (e, ci)"
    by (cases "extract_candidate_info (json_loads E) (extraction_reply inp) p (candidate_info s)")
  have ci: "truthy (email ci)" "truthy (phone ci)"
    using set x extract_candidate_info_scalars
            [of "candidate_info s" "json_loads E" "extraction_reply inp" p]
    by simp_all
  note au = apply_update_keeps_set [OF ci, of "update_field s" p]
  show ?thesis
    using set x ci au
    by (auto simp: technical_branch_def Let_def contact_fields_set_def
          save_candidate_to_db_frame split: sum.splits option.splits)
qed

lemma run_contact:
  assumes "contact_fields_set s"
  shows "contact_fields_set (snd (run E inp s))"
proof -
  let ?P = "flush_technical_answer (db_up inp) (start_conversation E (db_up inp) s)"
  have P: "contact_fields_set ?P"
    using assms by (simp add: contact_fields_set_def prelude_frame)
  consider (idle) "prompt inp = None \<or> prompt inp = Some []"
    | (msg) p where "prompt inp = Some p" "p \<noteq> []"
    by (cases "prompt inp") auto
  then show ?thesis
  proof cases
    case idle
    with P show ?thesis by (simp add: run_without_prompt)
  next
    case msg
    let ?s2 = "stage_answer p (save_message_to_db (db_up inp) ''user'' p
                 (?P\<lparr>messages := messages ?P @ [(''user'', p)]\<rparr>))"
    have s2: "contact_fields_set ?s2"
      using P by (simp add: contact_fields_set_def stage_answer_frame save_message_to_db_frame)
    have "contact_fields_set (snd (handle_prompt E inp p ?P))"
      using s2 info_branch_contact [of ?s2 E inp p] technical_branch_contact [of ?s2 E inp p]
      by (auto simp: handle_prompt_def Let_def contact_fields_set_def)
    with msg show ?thesis by (simp add: run_with_prompt)
  qed
qed

lemma runs_contact:
  "contact_fields_set s \<Longrightarrow> contact_fields_set (runs E inps s)"
  by (induction inps arbitrary: s) (simp_all add: run_contact)

lemma technical_phase_contact_fields_set:
  "phase (runs E inps (init_session_state db)) = Technical_questions \<Longrightarrow>
     truthy (email (candidate_info (runs E inps (init_session_state db)))) \<and>
     truthy (phone (candidate_info (runs E inps (init_session_state db))))"
  using runs_contact [of "init_session_state db" E inps]
  by (simp add: contact_fields_set_def init_session_state_def)

text \<open>
  \<^verbatim>\<open>get_missing_info\<close> and \<^verbatim>\<open>is_complete\<close> test the same seven entries, so the question for
  the next missing field exists whenever the profile is not complete.
\<close>

lemma get_missing_info_empty: "get_missing_info ci = [] \<longleftrightarrow> is_complete ci"
  by (simp add: get_missing_info_def is_complete_def)

lemma generate_next_question_defined:
  "\<not> is_complete ci \<Longrightarrow> generate_next_question E text ci \<noteq> None"
  using get_missing_info_empty [of ci]
  by (simp add: generate_next_question_def Let_def split: list.splits)

end
